theory Spec2Isabelle
  imports Main "HOL-Library.Word"
begin

section \<open>Join-strategy selection: the physical plan of a comparison join\<close>

text \<open>
  A shallow embedding of \<^verbatim>\<open>src/execution/physical_plan/plan_comparison_join.cpp\<close>:
  \<^verbatim>\<open>can_plan_index_join\<close>, \<^verbatim>\<open>TransformIndexJoin\<close> and
  \<^verbatim>\<open>PhysicalPlanGenerator::CreatePlan(LogicalComparisonJoin &)\<close>.
  Objects the code reaches through pointers are records; a pointer that may be null is an
  \<open>option\<close>; an object whose address the code uses as an identity carries that address as a
  field. An \<^verbatim>\<open>assert\<close> that fails and a read past the end of a vector are error values.
\<close>

subsection \<open>Data\<close>

type_synonym idx_t = "64 word"

text \<open>
  Modelled from the spec: the enumeration \<^verbatim>\<open>ExpressionType\<close>, whose header is not among the
  sources. The code names \<^verbatim>\<open>COMPARE_EQUAL\<close> and \<^verbatim>\<open>COMPARE_NOTEQUAL\<close>, the header of
  \<^verbatim>\<open>ConstantFilter\<close> names \<^verbatim>\<open>COMPARE_GREATERTHAN\<close> and \<^verbatim>\<open>COMPARE_LESSTHAN\<close>, and the
  spec lists "equal, not-equal, less-than, greater-than, ...". Every other enumerator is
  \<open>OTHER_EXPRESSION n\<close>.
\<close>

datatype ExpressionType =
    COMPARE_EQUAL
  | COMPARE_NOTEQUAL
  | COMPARE_LESSTHAN
  | COMPARE_GREATERTHAN
  | OTHER_EXPRESSION nat

text \<open>
  Modelled from the spec: the enumeration \<^verbatim>\<open>JoinType\<close>, whose header is not among the
  sources. The code names \<^verbatim>\<open>INNER\<close>; the spec lists "inner, left-outer, semi, anti, ...".
\<close>

datatype JoinType = INNER | LEFT | SEMI | ANTI | OTHER_JOIN nat

text \<open>
  An expression. The code reads its \<^verbatim>\<open>alias\<close> only; \<open>bound_to\<close> stands for everything
  else an expression holds (its class, its return type, the column binding it refers to).
\<close>

record Expression =
  "alias" :: string
  bound_to :: "nat \<times> nat"

record JoinCondition =
  left :: Expression
  right :: Expression
  comparison :: ExpressionType
  null_values_are_equal :: bool

text \<open>
  An index: \<^verbatim>\<open>Index *\<close> in the code. \<open>index_address\<close> is the identity of the object,
  \<open>unbound_expressions\<close> the expressions the index is built over.
\<close>

record Index =
  index_address :: nat
  unbound_expressions :: "Expression list"

record DataTableInfo =
  indexes :: "Index list"

text \<open>\<open>table_address\<close> is the \<^verbatim>\<open>DataTable *\<close> that the transaction's local storage is keyed by.\<close>

record DataTable =
  table_address :: nat
  info :: DataTableInfo

record TableCatalogEntry =
  storage :: DataTable

record TableScanBindData =
  table :: TableCatalogEntry

text \<open>
  \<^verbatim>\<open>FunctionData\<close> is the base class of the bind data of a table function; the code asks with
  \<^verbatim>\<open>dynamic_cast\<close> whether it is a \<^verbatim>\<open>TableScanBindData\<close>.
\<close>

datatype FunctionData =
    IsTableScanBindData TableScanBindData
  | OtherFunctionData nat

fun dynamic_cast :: "FunctionData option \<Rightarrow> TableScanBindData option" where
  "dynamic_cast None = None"
| "dynamic_cast (Some (IsTableScanBindData b)) = Some b"
| "dynamic_cast (Some (OtherFunctionData _)) = None"

text \<open>
  A table filter as the header of \<^verbatim>\<open>ConstantFilter\<close> declares it (the constant is an integer
  here), and a filter set: the \<^verbatim>\<open>filters\<close> of a scan, keyed by column index, of which the
  code reads the size.
\<close>

datatype TableFilter = ConstantFilter ExpressionType int

record TableFilterSet =
  filters :: "(idx_t \<times> TableFilter) list"

record PhysicalTableScan =
  bind_data :: "FunctionData option"
  table_filters :: "TableFilterSet option"
  column_ids :: "idx_t list"

text \<open>
  Modelled from the spec: \<^verbatim>\<open>LocalStorage::Find\<close>, whose file is not among the sources:
  "per-transaction record of which tables currently hold uncommitted local row storage".
  \<open>Find\<close> returns the local storage of a table, or null when the table has none.
\<close>

datatype LocalTableStorage = LocalTableStorage (local_rows: nat)

type_synonym LocalStorage = "nat \<rightharpoonup> LocalTableStorage"

definition Find :: "LocalStorage \<Rightarrow> DataTable \<Rightarrow> LocalTableStorage option" where
  "Find local_storage t = local_storage (table_address t)"

text \<open>\<open>transaction_storage\<close> is the field \<^verbatim>\<open>storage\<close> of \<^verbatim>\<open>Transaction\<close>.\<close>

record Transaction =
  transaction_storage :: LocalStorage

text \<open>\<open>transaction\<close> is what \<^verbatim>\<open>Transaction::GetTransaction(context)\<close> returns.\<close>

record ClientContext =
  force_index_join :: bool
  transaction :: Transaction

definition GetTransaction :: "ClientContext \<Rightarrow> Transaction" where
  "GetTransaction ctx = transaction ctx"

type_synonym LogicalType = nat

text \<open>
  Physical operators. A child of the join is a table scan or any other operator: \<open>Scan\<close> is
  an operator whose \<^verbatim>\<open>type\<close> is \<^verbatim>\<open>TABLE_SCAN\<close>, which the code casts to
  \<^verbatim>\<open>PhysicalTableScan\<close>. The join operators are what \<^verbatim>\<open>CreatePlan\<close> builds, each holding
  the arguments its constructor is called with, in the order of the call (the constructors
  are not among the sources). Where the constructor is handed the logical node \<^verbatim>\<open>op\<close>, the
  model hands over \<^verbatim>\<open>op.types\<close>, which is what the cross product is given.
\<close>

datatype PhysicalOperator =
    Scan PhysicalTableScan
  | PhysicalCrossProduct "LogicalType list" PhysicalOperator PhysicalOperator
  | PhysicalHashJoin "LogicalType list" PhysicalOperator PhysicalOperator
      "JoinCondition list" JoinType "idx_t list" "idx_t list"
  | PhysicalIndexJoin "LogicalType list" PhysicalOperator PhysicalOperator
      "JoinCondition list" JoinType "idx_t list" "idx_t list" "idx_t list" Index bool
  | PhysicalPiecewiseMergeJoin "LogicalType list" PhysicalOperator PhysicalOperator
      "JoinCondition list" JoinType
  | PhysicalNestedLoopJoin "LogicalType list" PhysicalOperator PhysicalOperator
      "JoinCondition list" JoinType
  | OtherPhysicalOperator nat

text \<open>
  A child of the logical join: \<^verbatim>\<open>CreatePlan\<close> asks it for \<^verbatim>\<open>EstimateCardinality()\<close> and lowers
  it with \<^verbatim>\<open>CreatePlan(*child)\<close>; both belong to other files, so a child is the pair of the
  two results. The lowered plan is an operator, not a null pointer, which is what
  \<^verbatim>\<open>assert(left && right)\<close> states.
\<close>

record LogicalOperator =
  EstimateCardinality :: idx_t
  lowered :: PhysicalOperator

record LogicalComparisonJoin =
  children :: "LogicalOperator list"
  types :: "LogicalType list"
  join_type :: JoinType
  conditions :: "JoinCondition list"
  left_projection_map :: "idx_t list"
  right_projection_map :: "idx_t list"

text \<open>
  \<open>Assertion_Failed\<close>: an \<^verbatim>\<open>assert\<close> that does not hold, in a build that has assertions.
  \<open>Out_Of_Range\<close>: the code reads element 0 or 1 of a vector that does not have it, or
  dereferences a null pointer (undefined behaviour in C++; no result is claimed for it).
\<close>

datatype error = Assertion_Failed | Out_Of_Range

subsection \<open>The comparison \<^verbatim>\<open>a < 0.01 * b\<close> of two \<^verbatim>\<open>idx_t\<close>\<close>

text \<open>
  C++ converts both \<^verbatim>\<open>idx_t\<close> operands to \<^verbatim>\<open>double\<close> and multiplies and compares there. A
  positive double is \<open>s * 2^e\<close> with \<open>s < 2^53\<close>; conversion and multiplication round to the
  nearest such number, ties to the even \<open>s\<close> (IEEE 754, the default rounding). \<open>round_to_double n\<close> rounds a natural number to
  53 significant bits. The literal \<^verbatim>\<open>0.01\<close> is the double \<open>5764607523034235 * 2^-59\<close>, so
  the product \<^verbatim>\<open>0.01 * b\<close> is \<open>round_to_double (5764607523034235 * round_to_double b)\<close> in
  units of \<open>2^-59\<close>; with \<open>b < 2^64\<close> nothing overflows and nothing is subnormal.
\<close>

fun bit_length :: "nat \<Rightarrow> nat" where
  "bit_length n = (if n = 0 then 0 else Suc (bit_length (n div 2)))"

declare bit_length.simps [simp del]

definition round_to_double :: "nat \<Rightarrow> nat" where
  "round_to_double n =
     (if bit_length n \<le> 53 then n
      else let k = bit_length n - 53;
               q = n div 2 ^ k;
               r = n mod 2 ^ k;
               half = 2 ^ (k - 1)
           in if r > half \<or> (r = half \<and> odd q) then (q + 1) * 2 ^ k else q * 2 ^ k)"

definition double_0_01 :: nat where
  "double_0_01 = 5764607523034235"

definition less_than_percent :: "idx_t \<Rightarrow> idx_t \<Rightarrow> bool" where
  "less_than_percent a b =
     (round_to_double (unat a) * 2 ^ 59 < round_to_double (double_0_01 * round_to_double (unat b)))"

subsection \<open>\<^verbatim>\<open>can_plan_index_join\<close>\<close>

definition can_plan_index_join ::
  "Transaction \<Rightarrow> TableScanBindData option \<Rightarrow> PhysicalTableScan \<Rightarrow> bool" where
  "can_plan_index_join transaction' bind_data' scan =
     (case bind_data' of
        None \<Rightarrow> False
      | Some b \<Rightarrow>
          if Find (transaction_storage transaction') (storage (table b)) \<noteq> None then False
          else if (case table_filters scan of None \<Rightarrow> False | Some fs \<Rightarrow> length (filters fs) > 0)
               then False
          else True)"

subsection \<open>\<^verbatim>\<open>TransformIndexJoin\<close>\<close>

text \<open>
  The loop over \<^verbatim>\<open>tbl->table->storage->info->indexes\<close>: the first index whose
  \<^verbatim>\<open>unbound_expressions[0]->alias\<close> is the alias looked for, then \<^verbatim>\<open>break\<close>. An index
  without expressions has no element 0.
\<close>

fun find_index :: "Index list \<Rightarrow> string \<Rightarrow> error + Index option" where
  "find_index [] a = Inr None"
| "find_index (index # rest) a =
     (case unbound_expressions index of
        [] \<Rightarrow> Inl Out_Of_Range
      | e # _ \<Rightarrow> if alias e = a then Inr (Some index) else find_index rest a)"

text \<open>One side of \<^verbatim>\<open>TransformIndexJoin\<close>: the child and the alias of its operand.\<close>

definition index_of_side ::
  "Transaction \<Rightarrow> PhysicalOperator \<Rightarrow> string \<Rightarrow> error + Index option" where
  "index_of_side transaction' child a =
     (case child of
        Scan tbl_scan \<Rightarrow>
          (let tbl = dynamic_cast (bind_data tbl_scan)
           in if can_plan_index_join transaction' tbl tbl_scan
              then (case tbl of
                      None \<Rightarrow> Inl Out_Of_Range
                    | Some b \<Rightarrow> find_index (indexes (info (storage (table b)))) a)
              else Inr None)
      | _ \<Rightarrow> Inr None)"

definition TransformIndexJoin ::
  "ClientContext \<Rightarrow> LogicalComparisonJoin \<Rightarrow> PhysicalOperator \<Rightarrow> PhysicalOperator
     \<Rightarrow> error + (Index option \<times> Index option)" where
  "TransformIndexJoin ctx op left_child right_child =
     (let transaction' = GetTransaction ctx
      in if join_type op = INNER \<and> length (conditions op) = 1
         then (case index_of_side transaction' left_child (alias (left (conditions op ! 0))) of
                 Inl e \<Rightarrow> Inl e
               | Inr left_index \<Rightarrow>
                   (case index_of_side transaction' right_child
                           (alias (right (conditions op ! 0))) of
                      Inl e \<Rightarrow> Inl e
                    | Inr right_index \<Rightarrow> Inr (left_index, right_index)))
         else Inr (None, None))"

subsection \<open>\<^verbatim>\<open>CreatePlan\<close>\<close>

text \<open>
  The loop over \<^verbatim>\<open>op.conditions\<close>. The state is \<open>(has_equality, has_inequality,
  has_null_equal_conditions)\<close>; \<open>ndebug\<close> says that the build defines \<^verbatim>\<open>NDEBUG\<close>, which
  removes every \<^verbatim>\<open>assert\<close>.
\<close>

fun classify_conditions ::
  "bool \<Rightarrow> JoinCondition list \<Rightarrow> bool \<times> bool \<times> bool \<Rightarrow> error + (bool \<times> bool \<times> bool)" where
  "classify_conditions ndebug [] flags = Inr flags"
| "classify_conditions ndebug (cond # rest) (has_equality, has_inequality, has_null_equal) =
     (let has_equality' = (if comparison cond = COMPARE_EQUAL then True else has_equality);
          has_inequality' = (if comparison cond = COMPARE_NOTEQUAL then True else has_inequality)
      in if null_values_are_equal cond
         then (if \<not> ndebug \<and> comparison cond \<noteq> COMPARE_EQUAL then Inl Assertion_Failed
               else classify_conditions ndebug rest (has_equality', has_inequality', True))
         else classify_conditions ndebug rest (has_equality', has_inequality', has_null_equal))"

text \<open>\<^verbatim>\<open>swap(op.conditions[0].left, op.conditions[0].right)\<close>\<close>

definition swap_operands :: "JoinCondition \<Rightarrow> JoinCondition" where
  "swap_operands c = c\<lparr>left := right c, right := left c\<rparr>"

definition swap_first :: "JoinCondition list \<Rightarrow> JoinCondition list" where
  "swap_first cs = cs[0 := swap_operands (cs ! 0)]"

definition CreatePlan ::
  "bool \<Rightarrow> ClientContext \<Rightarrow> LogicalComparisonJoin \<Rightarrow> error + PhysicalOperator" where
  "CreatePlan ndebug ctx op =
     (if \<not> ndebug \<and> length (children op) \<noteq> 2 then Inl Assertion_Failed
      else if length (children op) < 2 then Inl Out_Of_Range
      else
        let lhs_cardinality = EstimateCardinality (children op ! 0);
            rhs_cardinality = EstimateCardinality (children op ! 1);
            left_child = lowered (children op ! 0);
            right_child = lowered (children op ! 1)
        in
        if length (conditions op) = 0
        then Inr (PhysicalCrossProduct (types op) left_child right_child)
        else
          case classify_conditions ndebug (conditions op) (False, False, False) of
            Inl e \<Rightarrow> Inl e
          | Inr (has_equality, has_inequality, has_null_equal_conditions) \<Rightarrow>
              if has_equality
              then
                (case TransformIndexJoin ctx op left_child right_child of
                   Inl e \<Rightarrow> Inl e
                 | Inr (left_index, right_index) \<Rightarrow>
                     if left_index \<noteq> None \<and>
                        (force_index_join ctx \<or> less_than_percent rhs_cardinality lhs_cardinality)
                     then
                       (case left_child of
                          Scan tbl_scan \<Rightarrow>
                            Inr (PhysicalIndexJoin (types op) right_child left_child
                                   (swap_first (conditions op)) (join_type op)
                                   (right_projection_map op) (left_projection_map op)
                                   (column_ids tbl_scan) (the left_index) False)
                        | _ \<Rightarrow> Inl Out_Of_Range)
                     else if right_index \<noteq> None \<and>
                        (force_index_join ctx \<or> less_than_percent lhs_cardinality rhs_cardinality)
                     then
                       (case right_child of
                          Scan tbl_scan \<Rightarrow>
                            Inr (PhysicalIndexJoin (types op) left_child right_child
                                   (conditions op) (join_type op)
                                   (left_projection_map op) (right_projection_map op)
                                   (column_ids tbl_scan) (the right_index) True)
                        | _ \<Rightarrow> Inl Out_Of_Range)
                     else
                       Inr (PhysicalHashJoin (types op) left_child right_child
                              (conditions op) (join_type op)
                              (left_projection_map op) (right_projection_map op)))
              else
                if \<not> ndebug \<and> has_null_equal_conditions then Inl Assertion_Failed
                else if length (conditions op) = 1 \<and> \<not> has_inequality
                then Inr (PhysicalPiecewiseMergeJoin (types op) left_child right_child
                            (conditions op) (join_type op))
                else Inr (PhysicalNestedLoopJoin (types op) left_child right_child
                            (conditions op) (join_type op)))"

subsection \<open>Reading a produced operator\<close>

text \<open>
  The condition list a produced operator holds (a cross product holds none), and the list
  with the operand swap of the index join over the left table undone: that join is the one
  built with \<^verbatim>\<open>lhs_first = false\<close>.
\<close>

fun conditions_of :: "PhysicalOperator \<Rightarrow> JoinCondition list" where
  "conditions_of (PhysicalHashJoin _ _ _ cond _ _ _) = cond"
| "conditions_of (PhysicalIndexJoin _ _ _ cond _ _ _ _ _ _) = cond"
| "conditions_of (PhysicalPiecewiseMergeJoin _ _ _ cond _) = cond"
| "conditions_of (PhysicalNestedLoopJoin _ _ _ cond _) = cond"
| "conditions_of _ = []"

fun swapped :: "PhysicalOperator \<Rightarrow> bool" where
  "swapped (PhysicalIndexJoin _ _ _ _ _ _ _ _ _ lhs_first) = (\<not> lhs_first)"
| "swapped _ = False"

definition restore_conditions :: "PhysicalOperator \<Rightarrow> JoinCondition list" where
  "restore_conditions plan =
     (if swapped plan then swap_first (conditions_of plan) else conditions_of plan)"

datatype side = Left_Side | Right_Side

text \<open>The result is an index join that probes an index of the given side's table.\<close>

fun index_join_probing :: "side \<Rightarrow> error + PhysicalOperator \<Rightarrow> bool" where
  "index_join_probing s (Inr (PhysicalIndexJoin _ _ _ _ _ _ _ _ _ lhs_first)) =
     (case s of Left_Side \<Rightarrow> \<not> lhs_first | Right_Side \<Rightarrow> lhs_first)"
| "index_join_probing s _ = False"

subsection \<open>Well-formed input\<close>

text \<open>
  The invariant the loop asserts: a condition with \<^verbatim>\<open>null_values_are_equal\<close> is an equality.
\<close>

definition null_equal_only_on_equality :: "JoinCondition list \<Rightarrow> bool" where
  "null_equal_only_on_equality cs =
     (\<forall>c \<in> set cs. null_values_are_equal c \<longrightarrow> comparison c = COMPARE_EQUAL)"

text \<open>Every index of the table a child scans is built over at least one expression.\<close>

definition has_expressions :: "PhysicalOperator \<Rightarrow> bool" where
  "has_expressions child =
     (case child of
        Scan s \<Rightarrow>
          (case dynamic_cast (bind_data s) of
             None \<Rightarrow> True
           | Some b \<Rightarrow> \<forall>i \<in> set (indexes (info (storage (table b)))). unbound_expressions i \<noteq> [])
      | _ \<Rightarrow> True)"

subsection \<open>Eligibility as the specification words it\<close>

text \<open>
  These definitions follow the specification, section 4.1, to be compared with the code.
  \<open>spec_usable_side\<close>: the side's plan is a bare table scan without residual filters, the
  table has no transaction-local storage, and its index list has an index bound to the
  column of the side's operand (the alias \<open>a\<close>). \<open>spec_single_inner_equality\<close>: one
  condition, an equality, inner join, not null-aware. \<open>spec_less_than_percent a b\<close>: \<open>a\<close>
  is strictly less than one percent of \<open>b\<close>.
\<close>

definition spec_usable_side :: "ClientContext \<Rightarrow> PhysicalOperator \<Rightarrow> string \<Rightarrow> bool" where
  "spec_usable_side ctx child a =
     (case child of
        Scan s \<Rightarrow>
          (case dynamic_cast (bind_data s) of
             None \<Rightarrow> False
           | Some b \<Rightarrow>
               (case table_filters s of None \<Rightarrow> True | Some fs \<Rightarrow> filters fs = []) \<and>
               Find (transaction_storage (transaction ctx)) (storage (table b)) = None \<and>
               (\<exists>i \<in> set (indexes (info (storage (table b)))).
                  unbound_expressions i \<noteq> [] \<and> alias (hd (unbound_expressions i)) = a))
      | _ \<Rightarrow> False)"

definition spec_single_inner_equality :: "LogicalComparisonJoin \<Rightarrow> bool" where
  "spec_single_inner_equality op =
     (length (conditions op) = 1 \<and> comparison (hd (conditions op)) = COMPARE_EQUAL \<and>
      join_type op = INNER \<and> \<not> null_values_are_equal (hd (conditions op)))"

definition spec_eligible ::
  "ClientContext \<Rightarrow> LogicalComparisonJoin \<Rightarrow> PhysicalOperator \<Rightarrow> Expression \<Rightarrow> bool" where
  "spec_eligible ctx op child operand =
     (spec_single_inner_equality op \<and> spec_usable_side ctx child (alias operand))"

definition spec_less_than_percent :: "idx_t \<Rightarrow> idx_t \<Rightarrow> bool" where
  "spec_less_than_percent a b = (100 * unat a < unat b)"

subsection \<open>Example input\<close>

text \<open>
  Two tables \<open>A\<close> and \<open>B\<close>, each scanned without filters; \<open>A\<close> has an index on \<open>x\<close>, \<open>B\<close> an
  index on \<open>y\<close>; a transaction without local storage; and the join of the two scans under a
  given list of conditions, with given cardinality estimates.
\<close>

definition expr_x :: Expression where
  "expr_x = \<lparr>alias = ''x'', bound_to = (0, 0)\<rparr>"

definition expr_y :: Expression where
  "expr_y = \<lparr>alias = ''y'', bound_to = (1, 0)\<rparr>"

definition index_A_x :: Index where
  "index_A_x = \<lparr>index_address = 1, unbound_expressions = [expr_x]\<rparr>"

definition index_B_y :: Index where
  "index_B_y = \<lparr>index_address = 2, unbound_expressions = [expr_y]\<rparr>"

definition table_A :: TableScanBindData where
  "table_A = \<lparr>table = \<lparr>storage = \<lparr>table_address = 10, info = \<lparr>indexes = [index_A_x]\<rparr>\<rparr>\<rparr>\<rparr>"

definition table_B :: TableScanBindData where
  "table_B = \<lparr>table = \<lparr>storage = \<lparr>table_address = 20, info = \<lparr>indexes = [index_B_y]\<rparr>\<rparr>\<rparr>\<rparr>"

definition scan_A :: PhysicalTableScan where
  "scan_A = \<lparr>bind_data = Some (IsTableScanBindData table_A), table_filters = None,
              column_ids = [0, 1]\<rparr>"

definition scan_B :: PhysicalTableScan where
  "scan_B = \<lparr>bind_data = Some (IsTableScanBindData table_B), table_filters = None,
              column_ids = [0]\<rparr>"

definition plain_context :: ClientContext where
  "plain_context = \<lparr>force_index_join = False, transaction = \<lparr>transaction_storage = Map.empty\<rparr>\<rparr>"

definition forcing_context :: ClientContext where
  "forcing_context = \<lparr>force_index_join = True, transaction = \<lparr>transaction_storage = Map.empty\<rparr>\<rparr>"

definition x_compared_with_y :: "ExpressionType \<Rightarrow> bool \<Rightarrow> JoinCondition" where
  "x_compared_with_y cmp null_equal =
     \<lparr>left = expr_x, right = expr_y, comparison = cmp, null_values_are_equal = null_equal\<rparr>"

definition child_A :: "idx_t \<Rightarrow> LogicalOperator" where
  "child_A card_A = \<lparr>EstimateCardinality = card_A, lowered = Scan scan_A\<rparr>"

definition child_B :: "idx_t \<Rightarrow> LogicalOperator" where
  "child_B card_B = \<lparr>EstimateCardinality = card_B, lowered = Scan scan_B\<rparr>"

definition join_A_B :: "idx_t \<Rightarrow> idx_t \<Rightarrow> JoinCondition list \<Rightarrow> LogicalComparisonJoin" where
  "join_A_B card_A card_B conds =
     \<lparr>children = [child_A card_A, child_B card_B], types = [4, 4, 4], join_type = INNER,
      conditions = conds, left_projection_map = [0], right_projection_map = [1]\<rparr>"

text \<open>The same transaction after an insert into \<open>A\<close> that is not yet committed.\<close>

definition local_insert_context :: ClientContext where
  "local_insert_context =
     \<lparr>force_index_join = False,
      transaction = \<lparr>transaction_storage = [10 \<mapsto> LocalTableStorage 1]\<rparr>\<rparr>"

text \<open>
  A table \<open>C\<close> with three indexes, in this order: on \<open>z\<close>; on \<open>(x, z)\<close>, whose first
  expression has the alias \<open>x\<close> and another binding than \<open>expr_x\<close>; and on \<open>x\<close>.
\<close>

definition expr_z :: Expression where
  "expr_z = \<lparr>alias = ''z'', bound_to = (2, 1)\<rparr>"

definition expr_x_elsewhere :: Expression where
  "expr_x_elsewhere = \<lparr>alias = ''x'', bound_to = (7, 3)\<rparr>"

definition index_C_z :: Index where
  "index_C_z = \<lparr>index_address = 3, unbound_expressions = [expr_z]\<rparr>"

definition index_C_x_z :: Index where
  "index_C_x_z = \<lparr>index_address = 4, unbound_expressions = [expr_x_elsewhere, expr_z]\<rparr>"

definition index_C_x :: Index where
  "index_C_x = \<lparr>index_address = 5, unbound_expressions = [expr_x]\<rparr>"

definition table_C :: TableScanBindData where
  "table_C =
     \<lparr>table = \<lparr>storage = \<lparr>table_address = 30,
                              info = \<lparr>indexes = [index_C_z, index_C_x_z, index_C_x]\<rparr>\<rparr>\<rparr>\<rparr>"

definition scan_C :: PhysicalTableScan where
  "scan_C = \<lparr>bind_data = Some (IsTableScanBindData table_C), table_filters = None,
              column_ids = [0, 1]\<rparr>"

definition join_C_B :: "JoinCondition list \<Rightarrow> LogicalComparisonJoin" where
  "join_C_B conds =
     \<lparr>children = [\<lparr>EstimateCardinality = 1000, lowered = Scan scan_C\<rparr>, child_B 1000],
      types = [4, 4, 4], join_type = INNER, conditions = conds,
      left_projection_map = [0], right_projection_map = [1]\<rparr>"

text \<open>
  The scenarios of the specification, over \<open>A\<close> and \<open>B\<close>: an equality of \<open>x\<close> and \<open>y\<close>
  with one million rows in \<open>A\<close> and a hundred in \<open>B\<close>; the same with equal cardinalities;
  the same condition with \<^verbatim>\<open>null_values_are_equal\<close>; and the estimates
  \<open>10^16 + 1\<close> and \<open>10^14\<close>.
\<close>

definition x_equals_y :: JoinCondition where
  "x_equals_y = x_compared_with_y COMPARE_EQUAL False"

definition small_B_join :: LogicalComparisonJoin where
  "small_B_join = join_A_B 1000000 100 [x_equals_y]"

definition even_join :: LogicalComparisonJoin where
  "even_join = join_A_B 1000 1000 [x_equals_y]"

definition null_equal_join :: LogicalComparisonJoin where
  "null_equal_join = join_A_B 1000000 100 [x_compared_with_y COMPARE_EQUAL True]"

definition huge_join :: LogicalComparisonJoin where
  "huge_join = join_A_B 10000000000000001 100000000000000 [x_equals_y]"

lemmas example_defs =
  expr_x_def expr_y_def index_A_x_def index_B_y_def table_A_def table_B_def scan_A_def
  scan_B_def plain_context_def x_compared_with_y_def child_A_def child_B_def join_A_B_def

lemmas code_defs =
  CreatePlan_def TransformIndexJoin_def index_of_side_def can_plan_index_join_def Find_def
  GetTransaction_def swap_first_def swap_operands_def Let_def

lemmas double_defs =
  less_than_percent_def round_to_double_def double_0_01_def bit_length.simps

section \<open>Properties\<close>

subsection \<open>The loops\<close>

text \<open>The loop over the conditions, when no assertion fails, computes the three flags.\<close>

lemma classify_conditions_Inr:
  "ndebug \<or> null_equal_only_on_equality cs \<Longrightarrow>
   classify_conditions ndebug cs (e, i, n) =
     Inr (e \<or> (\<exists>c \<in> set cs. comparison c = COMPARE_EQUAL),
          i \<or> (\<exists>c \<in> set cs. comparison c = COMPARE_NOTEQUAL),
          n \<or> (\<exists>c \<in> set cs. null_values_are_equal c))"
proof (induction cs arbitrary: e i n)
  case Nil
  then show ?case by simp
next
  case (Cons c cs)
  from Cons.prems have rest: "ndebug \<or> null_equal_only_on_equality cs"
    and here: "ndebug \<or> (null_values_are_equal c \<longrightarrow> comparison c = COMPARE_EQUAL)"
    by (auto simp: null_equal_only_on_equality_def)
  show ?case
    using here by (auto simp: Let_def Cons.IH [OF rest])
qed

text \<open>With assertions, a null-aware condition that is not an equality stops the loop.\<close>

lemma classify_conditions_Inl:
  "\<not> ndebug \<Longrightarrow> \<exists>c \<in> set cs. null_values_are_equal c \<and> comparison c \<noteq> COMPARE_EQUAL \<Longrightarrow>
   classify_conditions ndebug cs flags = Inl Assertion_Failed"
proof (induction cs arbitrary: flags)
  case Nil
  then show ?case by simp
next
  case (Cons c cs)
  obtain e i n where flags: "flags = (e, i, n)" by (cases flags) auto
  show ?case
  proof (cases "null_values_are_equal c \<and> comparison c \<noteq> COMPARE_EQUAL")
    case True
    with Cons.prems(1) show ?thesis by (simp add: flags Let_def)
  next
    case False
    with Cons.prems(2) have "\<exists>c \<in> set cs. null_values_are_equal c \<and> comparison c \<noteq> COMPARE_EQUAL"
      by auto
    from Cons.IH [OF Cons.prems(1) this] show ?thesis
      by (simp add: flags Let_def)
  qed
qed

text \<open>The loop over the indexes is \<open>find\<close> on the alias of the first expression.\<close>

lemma find_index_find:
  "\<forall>i \<in> set idxs. unbound_expressions i \<noteq> [] \<Longrightarrow>
   find_index idxs a = Inr (find (\<lambda>i. alias (hd (unbound_expressions i)) = a) idxs)"
  by (induction idxs) (auto split: list.splits)

text \<open>
  The loop reads the alias of the first expression of an index and nothing else: a change of
  the indexes that keeps that alias (and keeps an index without expressions as it is) does not
  change which element of the list is found.
\<close>

lemma find_index_equivariant:
  assumes "\<And>i. map alias (take 1 (unbound_expressions (f i))) =
                 map alias (take 1 (unbound_expressions i))"
  shows "find_index (map f idxs) a = map_sum id (map_option f) (find_index idxs a)"
proof (induction idxs)
  case Nil
  show ?case by simp
next
  case (Cons i idxs)
  show ?case
  proof (cases "unbound_expressions i")
    case Nil
    with assms [of i] have "unbound_expressions (f i) = []" by simp
    with Nil show ?thesis by simp
  next
    case (Cons e es)
    with assms [of i] obtain e' es' where f: "unbound_expressions (f i) = e' # es'"
      and "alias e' = alias e"
      by (cases "unbound_expressions (f i)") auto
    with Cons Cons.IH show ?thesis by simp
  qed
qed

subsection \<open>The index lookup of one side\<close>

lemma index_of_side_find:
  assumes "has_expressions child"
  shows "\<exists>x. index_of_side tr child a = Inr x \<and>
           (\<forall>s b. child = Scan s \<and> dynamic_cast (bind_data s) = Some b \<and>
                  can_plan_index_join tr (Some b) s \<longrightarrow>
                  x = find (\<lambda>i. alias (hd (unbound_expressions i)) = a)
                        (indexes (info (storage (table b)))))"
proof (cases child)
  case (Scan s)
  show ?thesis
  proof (cases "dynamic_cast (bind_data s)")
    case None
    with Scan show ?thesis by (simp add: index_of_side_def can_plan_index_join_def)
  next
    case (Some b)
    from assms Scan Some
    have wf: "\<forall>i \<in> set (indexes (info (storage (table b)))). unbound_expressions i \<noteq> []"
      by (simp add: has_expressions_def)
    show ?thesis
      using Scan Some find_index_find [OF wf, of a] by (simp add: index_of_side_def Let_def)
  qed
qed (simp_all add: index_of_side_def)

lemma index_of_side_usable:
  assumes "has_expressions child" and "spec_usable_side ctx child a"
  shows "\<exists>s b i. child = Scan s \<and> dynamic_cast (bind_data s) = Some b \<and>
           find (\<lambda>i. alias (hd (unbound_expressions i)) = a) (indexes (info (storage (table b)))) = Some i \<and>
           index_of_side (transaction ctx) child a = Inr (Some i)"
proof -
  from assms(2) obtain s b where child: "child = Scan s"
    and b: "dynamic_cast (bind_data s) = Some b"
    and nofilter: "(case table_filters s of None \<Rightarrow> True | Some fs \<Rightarrow> filters fs = [])"
    and nolocal: "Find (transaction_storage (transaction ctx)) (storage (table b)) = None"
    and ex: "\<exists>i \<in> set (indexes (info (storage (table b)))).
               unbound_expressions i \<noteq> [] \<and> alias (hd (unbound_expressions i)) = a"
    by (auto simp: spec_usable_side_def split: PhysicalOperator.splits option.splits)
  from assms(1) child b
  have wf: "\<forall>i \<in> set (indexes (info (storage (table b)))). unbound_expressions i \<noteq> []"
    by (simp add: has_expressions_def)
  from ex obtain i where
    i: "find (\<lambda>i. alias (hd (unbound_expressions i)) = a) (indexes (info (storage (table b)))) = Some i"
    by (cases "find (\<lambda>i. alias (hd (unbound_expressions i)) = a) (indexes (info (storage (table b))))")
       (auto simp: find_None_iff)
  have can: "can_plan_index_join (transaction ctx) (Some b) s"
    using nofilter nolocal by (auto simp: can_plan_index_join_def split: option.splits)
  have "index_of_side (transaction ctx) child a = Inr (Some i)"
    using child b can i find_index_find [OF wf, of a] by (simp add: index_of_side_def)
  with child b i show ?thesis by blast
qed

lemma index_of_side_unusable:
  assumes "has_expressions child" and "\<not> spec_usable_side ctx child a"
  shows "index_of_side (transaction ctx) child a = Inr None"
proof (cases child)
  case (Scan s)
  show ?thesis
  proof (cases "dynamic_cast (bind_data s)")
    case None
    with Scan show ?thesis by (simp add: index_of_side_def can_plan_index_join_def)
  next
    case (Some b)
    from assms(1) Scan Some
    have wf: "\<forall>i \<in> set (indexes (info (storage (table b)))). unbound_expressions i \<noteq> []"
      by (simp add: has_expressions_def)
    show ?thesis
    proof (cases "can_plan_index_join (transaction ctx) (Some b) s")
      case False
      with Scan Some show ?thesis by (simp add: index_of_side_def)
    next
      case True
      then have "(case table_filters s of None \<Rightarrow> True | Some fs \<Rightarrow> filters fs = [])"
        and "Find (transaction_storage (transaction ctx)) (storage (table b)) = None"
        by (auto simp: can_plan_index_join_def split: option.splits if_splits)
      with assms(2) Scan Some wf
      have "find (\<lambda>i. alias (hd (unbound_expressions i)) = a) (indexes (info (storage (table b)))) = None"
        by (auto simp: spec_usable_side_def find_None_iff)
      with Scan Some True find_index_find [OF wf, of a] show ?thesis
        by (simp add: index_of_side_def)
    qed
  qed
qed (simp_all add: index_of_side_def)

text \<open>What the two lookups of \<^verbatim>\<open>TransformIndexJoin\<close> return on index lists with expressions.\<close>

lemma TransformIndexJoin_result:
  assumes "has_expressions l" and "has_expressions r"
  shows "\<exists>li ri. TransformIndexJoin ctx op l r = Inr (li, ri) \<and>
           (li \<noteq> None) = (join_type op = INNER \<and> length (conditions op) = 1 \<and>
                           spec_usable_side ctx l (alias (left (hd (conditions op))))) \<and>
           (ri \<noteq> None) = (join_type op = INNER \<and> length (conditions op) = 1 \<and>
                           spec_usable_side ctx r (alias (right (hd (conditions op))))) \<and>
           (li \<noteq> None \<longrightarrow> (\<exists>s. l = Scan s)) \<and> (ri \<noteq> None \<longrightarrow> (\<exists>s. r = Scan s))"
proof (cases "join_type op = INNER \<and> length (conditions op) = 1")
  case False
  then show ?thesis by (auto simp: TransformIndexJoin_def)
next
  case True
  then obtain c where c: "conditions op = [c]"
    by (cases "conditions op") auto
  have L: "\<exists>li. index_of_side (transaction ctx) l (alias (left c)) = Inr li \<and>
             (li \<noteq> None) = spec_usable_side ctx l (alias (left c)) \<and>
             (li \<noteq> None \<longrightarrow> (\<exists>s. l = Scan s))"
    using index_of_side_usable [OF assms(1), of ctx "alias (left c)"]
          index_of_side_unusable [OF assms(1), of ctx "alias (left c)"]
    by (cases "spec_usable_side ctx l (alias (left c))") auto
  have R: "\<exists>ri. index_of_side (transaction ctx) r (alias (right c)) = Inr ri \<and>
             (ri \<noteq> None) = spec_usable_side ctx r (alias (right c)) \<and>
             (ri \<noteq> None \<longrightarrow> (\<exists>s. r = Scan s))"
    using index_of_side_usable [OF assms(2), of ctx "alias (right c)"]
          index_of_side_unusable [OF assms(2), of ctx "alias (right c)"]
    by (cases "spec_usable_side ctx r (alias (right c))") auto
  from L R True c show ?thesis
    by (auto simp: TransformIndexJoin_def GetTransaction_def)
qed

subsection \<open>The branches of \<^verbatim>\<open>CreatePlan\<close>\<close>

lemma swap_first_swap_first: "swap_first (swap_first cs) = cs"
  by (cases cs) (simp_all add: swap_first_def swap_operands_def)

lemma length_swap_first: "length (swap_first cs) = length cs"
  by (simp add: swap_first_def)

lemma CreatePlan_with_equality:
  assumes "children op = [l, r]"
    and "ndebug \<or> null_equal_only_on_equality (conditions op)"
    and "\<exists>c \<in> set (conditions op). comparison c = COMPARE_EQUAL"
    and "TransformIndexJoin ctx op (lowered l) (lowered r) = Inr (left_index, right_index)"
  shows "CreatePlan ndebug ctx op =
     (if left_index \<noteq> None \<and>
         (force_index_join ctx \<or> less_than_percent (EstimateCardinality r) (EstimateCardinality l))
      then (case lowered l of
              Scan tbl_scan \<Rightarrow>
                Inr (PhysicalIndexJoin (types op) (lowered r) (lowered l)
                       (swap_first (conditions op)) (join_type op)
                       (right_projection_map op) (left_projection_map op)
                       (column_ids tbl_scan) (the left_index) False)
            | _ \<Rightarrow> Inl Out_Of_Range)
      else if right_index \<noteq> None \<and>
         (force_index_join ctx \<or> less_than_percent (EstimateCardinality l) (EstimateCardinality r))
      then (case lowered r of
              Scan tbl_scan \<Rightarrow>
                Inr (PhysicalIndexJoin (types op) (lowered l) (lowered r)
                       (conditions op) (join_type op)
                       (left_projection_map op) (right_projection_map op)
                       (column_ids tbl_scan) (the right_index) True)
            | _ \<Rightarrow> Inl Out_Of_Range)
      else Inr (PhysicalHashJoin (types op) (lowered l) (lowered r)
                  (conditions op) (join_type op)
                  (left_projection_map op) (right_projection_map op)))"
proof -
  from assms(3) have ne: "conditions op \<noteq> []" by auto
  have cl: "classify_conditions ndebug (conditions op) (False, False, False) =
      Inr (True, \<exists>c \<in> set (conditions op). comparison c = COMPARE_NOTEQUAL,
           \<exists>c \<in> set (conditions op). null_values_are_equal c)"
    using classify_conditions_Inr [OF assms(2), of False False False] assms(3) by simp
  show ?thesis
    using assms(1) ne assms(4) by (simp add: CreatePlan_def Let_def cl)
qed

lemma CreatePlan_without_equality:
  assumes "children op = [l, r]"
    and "ndebug \<or> null_equal_only_on_equality (conditions op)"
    and "conditions op \<noteq> []"
    and "\<forall>c \<in> set (conditions op). comparison c \<noteq> COMPARE_EQUAL"
  shows "CreatePlan ndebug ctx op =
     (if length (conditions op) = 1 \<and> (\<forall>c \<in> set (conditions op). comparison c \<noteq> COMPARE_NOTEQUAL)
      then Inr (PhysicalPiecewiseMergeJoin (types op) (lowered l) (lowered r)
                  (conditions op) (join_type op))
      else Inr (PhysicalNestedLoopJoin (types op) (lowered l) (lowered r)
                  (conditions op) (join_type op)))"
proof -
  have cl: "classify_conditions ndebug (conditions op) (False, False, False) =
      Inr (False, \<exists>c \<in> set (conditions op). comparison c = COMPARE_NOTEQUAL,
           \<exists>c \<in> set (conditions op). null_values_are_equal c)"
    using classify_conditions_Inr [OF assms(2), of False False False] assms(4) by simp
  have "ndebug \<or> \<not> (\<exists>c \<in> set (conditions op). null_values_are_equal c)"
    using assms(2,4) by (auto simp: null_equal_only_on_equality_def)
  then show ?thesis
    using assms(1,3) by (auto simp: CreatePlan_def Let_def cl)
qed

lemma CreatePlan_assertion:
  assumes "\<exists>c \<in> set (conditions op). null_values_are_equal c \<and> comparison c \<noteq> COMPARE_EQUAL"
  shows "CreatePlan False ctx op = Inl Assertion_Failed"
proof -
  from assms have ne: "conditions op \<noteq> []" by auto
  have "classify_conditions False (conditions op) (False, False, False) = Inl Assertion_Failed"
    using assms by (intro classify_conditions_Inl) simp_all
  with ne show ?thesis by (simp add: CreatePlan_def Let_def)
qed

lemma CreatePlan_single_equality:
  assumes ch: "children op = [l, r]"
    and hl: "has_expressions (lowered l)" and hr: "has_expressions (lowered r)"
    and c: "conditions op = [c]" and eq: "comparison c = COMPARE_EQUAL"
  shows "\<exists>li ri.
      (li \<noteq> None) = (join_type op = INNER \<and> spec_usable_side ctx (lowered l) (alias (left c))) \<and>
      (ri \<noteq> None) = (join_type op = INNER \<and> spec_usable_side ctx (lowered r) (alias (right c))) \<and>
      CreatePlan ndebug ctx op =
        (if li \<noteq> None \<and>
            (force_index_join ctx \<or> less_than_percent (EstimateCardinality r) (EstimateCardinality l))
         then Inr (PhysicalIndexJoin (types op) (lowered r) (lowered l)
                     [swap_operands c] (join_type op)
                     (right_projection_map op) (left_projection_map op)
                     (case lowered l of Scan s \<Rightarrow> column_ids s) (the li) False)
         else if ri \<noteq> None \<and>
            (force_index_join ctx \<or> less_than_percent (EstimateCardinality l) (EstimateCardinality r))
         then Inr (PhysicalIndexJoin (types op) (lowered l) (lowered r)
                     [c] (join_type op)
                     (left_projection_map op) (right_projection_map op)
                     (case lowered r of Scan s \<Rightarrow> column_ids s) (the ri) True)
         else Inr (PhysicalHashJoin (types op) (lowered l) (lowered r)
                     [c] (join_type op)
                     (left_projection_map op) (right_projection_map op)))"
proof -
  from TransformIndexJoin_result [OF hl hr, of ctx op]
  obtain li ri where T: "TransformIndexJoin ctx op (lowered l) (lowered r) = Inr (li, ri)"
    and li: "(li \<noteq> None) = (join_type op = INNER \<and> spec_usable_side ctx (lowered l) (alias (left c)))"
    and ri: "(ri \<noteq> None) = (join_type op = INNER \<and> spec_usable_side ctx (lowered r) (alias (right c)))"
    and sl: "li \<noteq> None \<longrightarrow> (\<exists>s. lowered l = Scan s)"
    and sr: "ri \<noteq> None \<longrightarrow> (\<exists>s. lowered r = Scan s)"
    using c by auto
  have wf: "ndebug \<or> null_equal_only_on_equality (conditions op)"
    using c eq by (simp add: null_equal_only_on_equality_def)
  have ex: "\<exists>c \<in> set (conditions op). comparison c = COMPARE_EQUAL"
    using c eq by simp
  have "CreatePlan ndebug ctx op =
        (if li \<noteq> None \<and>
            (force_index_join ctx \<or> less_than_percent (EstimateCardinality r) (EstimateCardinality l))
         then Inr (PhysicalIndexJoin (types op) (lowered r) (lowered l)
                     [swap_operands c] (join_type op)
                     (right_projection_map op) (left_projection_map op)
                     (case lowered l of Scan s \<Rightarrow> column_ids s) (the li) False)
         else if ri \<noteq> None \<and>
            (force_index_join ctx \<or> less_than_percent (EstimateCardinality l) (EstimateCardinality r))
         then Inr (PhysicalIndexJoin (types op) (lowered l) (lowered r)
                     [c] (join_type op)
                     (left_projection_map op) (right_projection_map op)
                     (case lowered r of Scan s \<Rightarrow> column_ids s) (the ri) True)
         else Inr (PhysicalHashJoin (types op) (lowered l) (lowered r)
                     [c] (join_type op)
                     (left_projection_map op) (right_projection_map op)))"
    unfolding CreatePlan_with_equality [OF ch wf ex T]
    using sl sr c by (auto simp: swap_first_def)
  with li ri show ?thesis by blast
qed

lemma index_join_needs_single_equality:
  assumes "children op = [l, r]"
    and "index_join_probing s (CreatePlan ndebug ctx op)"
  shows "\<exists>c. conditions op = [c] \<and> comparison c = COMPARE_EQUAL \<and> join_type op = INNER"
proof -
  have inner1: "join_type op = INNER \<and> length (conditions op) = 1"
    using assms
    by (auto simp: CreatePlan_def Let_def TransformIndexJoin_def
             split: if_splits sum.splits prod.splits PhysicalOperator.splits)
  then obtain c where c: "conditions op = [c]" by (cases "conditions op") auto
  have "comparison c = COMPARE_EQUAL"
    using assms c
    by (auto simp: CreatePlan_def Let_def
             split: if_splits sum.splits prod.splits PhysicalOperator.splits)
  with inner1 c show ?thesis by simp
qed

subsection \<open>The comparison in double arithmetic\<close>

lemma bit_length_le_iff: "bit_length n \<le> k \<longleftrightarrow> n < 2 ^ k"
proof (induction n arbitrary: k rule: bit_length.induct)
  case (1 n)
  show ?case
  proof (cases "n = 0")
    case True
    then show ?thesis by (simp add: bit_length.simps)
  next
    case False
    show ?thesis
    proof (cases k)
      case 0
      with False show ?thesis by (simp add: bit_length.simps)
    next
      case (Suc k')
      have "bit_length n \<le> k \<longleftrightarrow> bit_length (n div 2) \<le> k'"
        using False Suc by (subst bit_length.simps) simp
      also have "\<dots> \<longleftrightarrow> n div 2 < 2 ^ k'"
        using "1.IH" [OF False] .
      also have "\<dots> \<longleftrightarrow> n < 2 ^ k"
        using Suc by (simp add: div_less_iff_less_mult mult.commute)
      finally show ?thesis .
    qed
  qed
qed

lemma round_to_double_small: "n < 2 ^ 53 \<Longrightarrow> round_to_double n = n"
  using bit_length_le_iff [of n 53] by (simp add: round_to_double_def)

lemma round_to_double_cases:
  assumes "\<not> bit_length n \<le> 53" and "k = bit_length n - 53"
  shows "round_to_double n = (n div 2 ^ k) * 2 ^ k \<and> 2 * (n mod 2 ^ k) \<le> 2 ^ k \<or>
         round_to_double n = (n div 2 ^ k + 1) * 2 ^ k \<and> 2 ^ k \<le> 2 * (n mod 2 ^ k)"
proof -
  from assms have k: "k \<ge> 1" by simp
  then have half: "2 * 2 ^ (k - 1) = (2::nat) ^ k"
    by (cases k) simp_all
  show ?thesis
    using assms(1) half unfolding round_to_double_def Let_def assms(2) [symmetric]
    by (auto simp: not_less)
qed


lemma bit_length_gt_iff: "k < bit_length n \<longleftrightarrow> 2 ^ k \<le> n"
  using bit_length_le_iff [of n k] by auto

text \<open>Rounding does not move a number past a number that a double holds.\<close>

lemma round_to_double_le:
  assumes le: "n \<le> s * 2 ^ j" and s: "s < 2 ^ 53"
  shows "round_to_double n \<le> s * 2 ^ j"
proof (cases "bit_length n \<le> 53")
  case True
  with le show ?thesis by (simp add: round_to_double_def)
next
  case False
  define k where "k = bit_length n - 53"
  from False have k1: "k \<ge> 1" and bl: "52 + k < bit_length n" by (simp_all add: k_def)
  from bl have low: "2 ^ (52 + k) \<le> n" by (simp add: bit_length_gt_iff)
  have jk: "k \<le> j"
  proof (rule ccontr)
    assume "\<not> k \<le> j"
    then have "j + 1 \<le> k" by simp
    have "s * 2 ^ j < 2 ^ 53 * 2 ^ j" using s by simp
    also have "\<dots> = 2 ^ (52 + (j + 1))" by (simp add: power_add)
    also have "\<dots> \<le> 2 ^ (52 + k)"
      using \<open>j + 1 \<le> k\<close> by (intro power_increasing) simp_all
    finally show False using low le by simp
  qed
  then obtain m where m: "s * 2 ^ j = m * 2 ^ k"
    by (metis le_add_diff_inverse2 mult.assoc power_add)
  from round_to_double_cases [OF False k_def]
  show ?thesis
  proof
    assume "round_to_double n = n div 2 ^ k * 2 ^ k \<and> 2 * (n mod 2 ^ k) \<le> 2 ^ k"
    then have "round_to_double n \<le> n" by simp
    with le show ?thesis by simp
  next
    assume up: "round_to_double n = (n div 2 ^ k + 1) * 2 ^ k \<and> 2 ^ k \<le> 2 * (n mod 2 ^ k)"
    then have "(2::nat) ^ k \<le> 2 * (n mod 2 ^ k)" by simp
    then have "n mod 2 ^ k \<noteq> 0" by (cases "n mod 2 ^ k = 0") simp_all
    have "n div 2 ^ k < m"
    proof (rule ccontr)
      assume "\<not> n div 2 ^ k < m"
      then have "m * 2 ^ k \<le> n div 2 ^ k * 2 ^ k" by simp
      also have "\<dots> < n"
        using \<open>n mod 2 ^ k \<noteq> 0\<close> by (metis div_mult_mod_eq less_add_same_cancel1 neq0_conv)
      finally show False using le m by simp
    qed
    then have "n div 2 ^ k + 1 \<le> m" by simp
    then have "(n div 2 ^ k + 1) * 2 ^ k \<le> m * 2 ^ k" by (rule mult_le_mono1)
    with up m show ?thesis by simp
  qed
qed

text \<open>Rounding loses at most half a unit of the last of the 53 bits.\<close>

lemma round_to_double_ge:
  assumes "\<not> bit_length n \<le> 53" and "k = bit_length n - 53"
  shows "2 * n \<le> 2 * round_to_double n + 2 ^ k"
proof -
  have n: "n div 2 ^ k * 2 ^ k + n mod 2 ^ k = n" by (rule div_mult_mod_eq)
  from round_to_double_cases [OF assms]
  show ?thesis
  proof
    assume "round_to_double n = n div 2 ^ k * 2 ^ k \<and> 2 * (n mod 2 ^ k) \<le> 2 ^ k"
    with n show ?thesis by linarith
  next
    assume "round_to_double n = (n div 2 ^ k + 1) * 2 ^ k \<and> 2 ^ k \<le> 2 * (n mod 2 ^ k)"
    moreover have "n mod 2 ^ k < 2 ^ k" by simp
    moreover have "(n div 2 ^ k + 1) * 2 ^ k = n div 2 ^ k * 2 ^ k + 2 ^ k"
      by (simp add: add_mult_distrib)
    ultimately have "n \<le> round_to_double n" using n by linarith
    then show ?thesis by simp
  qed
qed


text \<open>
  Below \<open>2^53\<close> the comparison in double arithmetic decides \<open>100 * r < l\<close>:
  \<open>100 * double_0_01 = 2^59 + 12\<close>.
\<close>

lemma percent_product_rounds_down:
  assumes r: "r < 2 ^ 53" and le: "l \<le> 100 * r"
  shows "round_to_double (double_0_01 * l) \<le> r * 2 ^ 59"
proof -
  define N where "N = double_0_01 * l"
  have "N \<le> double_0_01 * (100 * r)"
    unfolding N_def using le by (rule mult_le_mono2)
  then have N_up: "N \<le> r * 2 ^ 59 + 12 * r"
    by (simp add: double_0_01_def)
  show ?thesis
  proof (cases "N \<le> r * 2 ^ 59")
    case True
    then show ?thesis
      unfolding N_def [symmetric] using r by (rule round_to_double_le)
  next
    case False
    then have above: "r * 2 ^ 59 < N" by simp
    with N_up have rpos: "0 < r" by (cases "r = 0") simp_all
    define b where "b = bit_length r"
    have b_up: "r < 2 ^ b"
      using bit_length_le_iff [of r b] by (simp add: b_def)
    have "0 < bit_length r"
      using rpos by (simp add: bit_length_gt_iff)
    then have b1: "1 \<le> b" by (simp add: b_def)
    have b53: "b \<le> 53"
      using r by (simp add: b_def bit_length_le_iff)
    have "b - 1 < bit_length r" using b1 by (simp add: b_def)
    then have b_low: "2 ^ (b - 1) \<le> r" by (simp add: bit_length_gt_iff)
    define k where "k = b + 6"
    have pk: "(2::nat) ^ k = 64 * 2 ^ b" by (simp add: k_def power_add)
    have p59: "(2::nat) ^ (b + 59) = 2 ^ 59 * 2 ^ b" by (simp add: power_add)
    have "(r + 1) * 2 ^ 59 \<le> 2 ^ b * 2 ^ 59"
      using b_up by (intro mult_le_mono1) simp
    moreover have "12 * r < 2 ^ 59" using r by simp
    ultimately have "N < 2 ^ (b + 59)"
      using N_up by (simp add: p59)
    then have bl_up: "bit_length N \<le> b + 59" by (simp add: bit_length_le_iff)
    have "b + 58 = (b - 1) + 59" using b1 by simp
    then have "(2::nat) ^ (b + 58) = 2 ^ (b - 1) * 2 ^ 59"
      by (simp only: power_add)
    also have "\<dots> \<le> r * 2 ^ 59"
      using b_low by (rule mult_le_mono1)
    finally have "2 ^ (b + 58) \<le> N" using above by simp
    then have "b + 58 < bit_length N" by (simp add: bit_length_gt_iff)
    with bl_up have bl: "bit_length N = b + 59" by simp
    then have big: "\<not> bit_length N \<le> 53" and kN: "k = bit_length N - 53"
      by (simp_all add: k_def)
    define d where "d = N - r * 2 ^ 59"
    have d: "N = r * 2 ^ 59 + d" and d12: "d \<le> 12 * r"
      using above N_up by (simp_all add: d_def)
    have "(53 - b) + k = 59" using b53 by (simp add: k_def)
    then have "(2::nat) ^ 59 = 2 ^ ((53 - b) + k)" by (simp only:)
    then have p_split: "(2::nat) ^ 59 = 2 ^ (53 - b) * 2 ^ k" by (simp only: power_add)
    then have N_split: "N = r * 2 ^ (53 - b) * 2 ^ k + d"
      using d by simp
    have "24 * r < 24 * 2 ^ b" using b_up by simp
    with d12 have d_small: "2 * d < 2 ^ k" by (simp add: pk)
    then have "d < 2 ^ k" by simp
    then have "N div 2 ^ k = r * 2 ^ (53 - b)" and "N mod 2 ^ k = d"
      by (simp_all add: N_split)
    with round_to_double_cases [OF big kN] d_small
    have "round_to_double N = r * 2 ^ (53 - b) * 2 ^ k" by auto
    also have "\<dots> = r * 2 ^ 59"
      using p_split by simp
    finally show ?thesis by (simp add: N_def)
  qed
qed

lemma percent_product_rounds_above:
  assumes l: "l < 2 ^ 53" and lt: "100 * r < l"
  shows "r * 2 ^ 59 < round_to_double (double_0_01 * l)"
proof -
  define N where "N = double_0_01 * l"
  from lt have "100 * r + 1 \<le> l" by simp
  then have "double_0_01 * (100 * r + 1) \<le> N"
    unfolding N_def by (rule mult_le_mono2)
  then have N_low: "r * 2 ^ 59 + 5764607523034235 \<le> N"
    by (simp add: double_0_01_def)
  have "N < double_0_01 * 2 ^ 53"
    unfolding N_def using l by (simp add: double_0_01_def)
  then have N_up: "N < 2 ^ 106" by (simp add: double_0_01_def)
  have "r * 2 ^ 59 < round_to_double N"
  proof (cases "bit_length N \<le> 53")
    case True
    with N_low show ?thesis by (simp add: round_to_double_def)
  next
    case False
    define k where "k = bit_length N - 53"
    have "bit_length N \<le> 106" using N_up by (simp add: bit_length_le_iff)
    then have "k \<le> 53" by (simp add: k_def)
    then have "(2::nat) ^ k \<le> 2 ^ 53" by (intro power_increasing) simp_all
    with round_to_double_ge [OF False k_def] N_low show ?thesis by simp
  qed
  then show ?thesis by (simp add: N_def)
qed

lemma less_than_percent_exact:
  assumes "unat a < 2 ^ 53" and "unat b < 2 ^ 53"
  shows "less_than_percent a b \<longleftrightarrow> 100 * unat a < unat b"
proof -
  have "round_to_double (unat a) = unat a" and "round_to_double (unat b) = unat b"
    using assms by (simp_all add: round_to_double_small)
  then have "less_than_percent a b \<longleftrightarrow>
               unat a * 2 ^ 59 < round_to_double (double_0_01 * unat b)"
    by (simp add: less_than_percent_def)
  also have "\<dots> \<longleftrightarrow> 100 * unat a < unat b"
    using percent_product_rounds_down [OF assms(1), of "unat b"]
          percent_product_rounds_above [OF assms(2), of "unat a"]
    by (cases "100 * unat a < unat b") (simp_all add: not_less)
  finally show ?thesis .
qed

section \<open>The claims\<close>

subsection \<open>C1\<close>

text \<open>
  C1: a join node with a single inner equality condition that has
  \<^verbatim>\<open>null_values_are_equal\<close> is to become a hash join, never an index join. The code does not
  read the flag on the index path: at \<open>null_equal_join\<close> (one million rows in \<open>A\<close>, a hundred
  in \<open>B\<close>, an index on \<open>A.x\<close>) it builds the index join over the index of \<open>A\<close>, with and
  without assertions.
\<close>

theorem null_equal_condition_index_join:
  "conditions null_equal_join = [x_compared_with_y COMPARE_EQUAL True] \<and>
   null_values_are_equal (x_compared_with_y COMPARE_EQUAL True) \<and>
   CreatePlan ndebug plain_context null_equal_join =
     Inr (PhysicalIndexJoin [4, 4, 4] (Scan scan_B) (Scan scan_A)
            [\<lparr>left = expr_y, right = expr_x, comparison = COMPARE_EQUAL,
              null_values_are_equal = True\<rparr>]
            INNER [1] [0] [0, 1] index_A_x False)"
  by (simp add: code_defs example_defs null_equal_join_def double_defs)

subsection \<open>C2\<close>

text \<open>
  C2 as stated: an index join probing a side is produced if and only if the side is
  eligible and the force flag or the one-percent test holds. At \<open>even_join\<close> with the force
  flag, the right side meets every condition the claim lists, and the result does not probe
  the right side: the left side is taken first.
\<close>

theorem right_side_eligible_not_probed:
  "spec_eligible forcing_context even_join (Scan scan_B) expr_y \<and>
   force_index_join forcing_context \<and>
   \<not> index_join_probing Right_Side (CreatePlan False forcing_context even_join)"
  by (simp add: spec_eligible_def spec_single_inner_equality_def spec_usable_side_def
        code_defs example_defs forcing_context_def even_join_def x_equals_y_def)

text \<open>
  C2, amended: for a join node of two children whose scanned tables have indexes with
  expressions, and which is not a single condition with \<^verbatim>\<open>null_values_are_equal\<close>: the
  result is an index join probing the left side if and only if the left side is eligible
  (one condition, an equality, inner join, flag not set, bare table scan without filters, no
  transaction-local storage, an index whose first expression has the alias of the left
  operand) and the force flag is set or \<^verbatim>\<open>rhs_cardinality < 0.01 * lhs_cardinality\<close> holds in
  double arithmetic; it is an index join probing the right side if and only if the same
  holds of the right side and does not hold of the left side. For estimates below \<open>2^53\<close>
  the comparison in double arithmetic is the one-percent test (\<open>less_than_percent_exact\<close>).
\<close>

theorem index_join_iff:
  assumes ch: "children op = [l, r]"
    and hl: "has_expressions (lowered l)" and hr: "has_expressions (lowered r)"
    and nn: "\<not> (length (conditions op) = 1 \<and> null_values_are_equal (hd (conditions op)))"
  shows "(index_join_probing Left_Side (CreatePlan ndebug ctx op) \<longleftrightarrow>
            spec_eligible ctx op (lowered l) (left (hd (conditions op))) \<and>
            (force_index_join ctx \<or>
             less_than_percent (EstimateCardinality r) (EstimateCardinality l))) \<and>
         (index_join_probing Right_Side (CreatePlan ndebug ctx op) \<longleftrightarrow>
            spec_eligible ctx op (lowered r) (right (hd (conditions op))) \<and>
            (force_index_join ctx \<or>
             less_than_percent (EstimateCardinality l) (EstimateCardinality r)) \<and>
            \<not> (spec_eligible ctx op (lowered l) (left (hd (conditions op))) \<and>
               (force_index_join ctx \<or>
                less_than_percent (EstimateCardinality r) (EstimateCardinality l))))"
proof (cases "\<exists>c. conditions op = [c] \<and> comparison c = COMPARE_EQUAL \<and> join_type op = INNER")
  case False
  then have "\<not> index_join_probing s (CreatePlan ndebug ctx op)" for s
    using index_join_needs_single_equality [OF ch] by blast
  moreover have "\<not> spec_eligible ctx op child e" for child e
    using False
    by (cases "conditions op") (auto simp: spec_eligible_def spec_single_inner_equality_def)
  ultimately show ?thesis by blast
next
  case True
  then obtain c where c: "conditions op = [c]" and eq: "comparison c = COMPARE_EQUAL"
    and inner: "join_type op = INNER" by blast
  from nn c have nonull: "\<not> null_values_are_equal c" by simp
  have el: "spec_eligible ctx op child e = spec_usable_side ctx child (alias e)" for child e
    using c eq inner nonull by (simp add: spec_eligible_def spec_single_inner_equality_def)
  from CreatePlan_single_equality [OF ch hl hr c eq, of ctx ndebug]
  obtain li ri where
    li': "(li \<noteq> None) = (join_type op = INNER \<and> spec_usable_side ctx (lowered l) (alias (left c)))" and
    ri': "(ri \<noteq> None) = (join_type op = INNER \<and> spec_usable_side ctx (lowered r) (alias (right c)))" and
    plan: "CreatePlan ndebug ctx op =
        (if li \<noteq> None \<and>
            (force_index_join ctx \<or> less_than_percent (EstimateCardinality r) (EstimateCardinality l))
         then Inr (PhysicalIndexJoin (types op) (lowered r) (lowered l)
                     [swap_operands c] (join_type op)
                     (right_projection_map op) (left_projection_map op)
                     (case lowered l of Scan s \<Rightarrow> column_ids s) (the li) False)
         else if ri \<noteq> None \<and>
            (force_index_join ctx \<or> less_than_percent (EstimateCardinality l) (EstimateCardinality r))
         then Inr (PhysicalIndexJoin (types op) (lowered l) (lowered r)
                     [c] (join_type op)
                     (left_projection_map op) (right_projection_map op)
                     (case lowered r of Scan s \<Rightarrow> column_ids s) (the ri) True)
         else Inr (PhysicalHashJoin (types op) (lowered l) (lowered r)
                     [c] (join_type op)
                     (left_projection_map op) (right_projection_map op)))"
    by blast
  from li' ri' inner
  have li: "(li \<noteq> None) = spec_usable_side ctx (lowered l) (alias (left c))"
    and ri: "(ri \<noteq> None) = spec_usable_side ctx (lowered r) (alias (right c))"
    by simp_all
  show ?thesis
    unfolding plan el using li ri c by auto
qed

theorem index_join_iff_witness:
  "children small_B_join = [child_A 1000000, child_B 100] \<and>
   has_expressions (lowered (child_A 1000000)) \<and>
   has_expressions (lowered (child_B 100)) \<and>
   \<not> (length (conditions small_B_join) = 1 \<and>
      null_values_are_equal (hd (conditions small_B_join))) \<and>
   spec_eligible plain_context small_B_join (lowered (child_A 1000000))
     (left (hd (conditions small_B_join))) \<and>
   less_than_percent (EstimateCardinality (child_B 100)) (EstimateCardinality (child_A 1000000)) \<and>
   index_join_probing Left_Side (CreatePlan False plain_context small_B_join) \<and>
   \<not> index_join_probing Right_Side (CreatePlan False plain_context small_B_join)"
proof -
  have h1: "children small_B_join = [child_A 1000000, child_B 100]"
    by (simp add: small_B_join_def join_A_B_def)
  have h2: "has_expressions (lowered (child_A 1000000))"
    by (simp add: has_expressions_def example_defs)
  have h3: "has_expressions (lowered (child_B 100))"
    by (simp add: has_expressions_def example_defs)
  have h4: "\<not> (length (conditions small_B_join) = 1 \<and>
               null_values_are_equal (hd (conditions small_B_join)))"
    by (simp add: example_defs small_B_join_def x_equals_y_def)
  have e: "spec_eligible plain_context small_B_join (lowered (child_A 1000000))
             (left (hd (conditions small_B_join)))"
    by (simp add: spec_eligible_def spec_single_inner_equality_def spec_usable_side_def Find_def
          example_defs small_B_join_def x_equals_y_def)
  have t: "less_than_percent (EstimateCardinality (child_B 100))
             (EstimateCardinality (child_A 1000000))"
    by (simp add: child_A_def child_B_def double_defs)
  from index_join_iff [OF h1 h2 h3 h4, of False plain_context] e t
  have "index_join_probing Left_Side (CreatePlan False plain_context small_B_join) \<and>
        \<not> index_join_probing Right_Side (CreatePlan False plain_context small_B_join)"
    by blast
  with h1 h2 h3 h4 e t show ?thesis by blast
qed

subsection \<open>C3\<close>

text \<open>
  C3 as stated: when the left side is eligible and the right cardinality is strictly less
  than one percent of the left cardinality, the result is the index join over the left
  table. At \<open>huge_join\<close> the estimates are \<open>10^16 + 1\<close> and \<open>10^14\<close>: \<open>100 * 10^14\<close> is
  less than \<open>10^16 + 1\<close>, but as a double the left estimate is \<open>10^16\<close>, its product with
  \<^verbatim>\<open>0.01\<close> is \<open>10^14\<close>, and the comparison is false. The result is a hash join.
\<close>

theorem one_percent_in_double_arithmetic:
  "spec_eligible plain_context huge_join (Scan scan_A) expr_x \<and>
   spec_less_than_percent 100000000000000 10000000000000001 \<and>
   CreatePlan False plain_context huge_join =
     Inr (PhysicalHashJoin [4, 4, 4] (Scan scan_A) (Scan scan_B) [x_equals_y] INNER [0] [1])"
  by (simp add: spec_eligible_def spec_single_inner_equality_def spec_usable_side_def
        spec_less_than_percent_def code_defs example_defs huge_join_def x_equals_y_def
        double_defs)

text \<open>
  C3, amended: when the left side is eligible and the force flag is set or
  \<^verbatim>\<open>rhs_cardinality < 0.01 * lhs_cardinality\<close> holds in double arithmetic (for estimates
  below \<open>2^53\<close>: the right estimate is strictly less than one percent of the left one,
  \<open>less_than_percent_exact\<close>), the result is the index join built over the first index of
  the left table whose first expression has the alias of the left operand, with
  \<^verbatim>\<open>lhs_first = false\<close>: the right plan is its first child and the left scan its second, the
  operands of the single condition are swapped, the right projection map comes first and
  the left one second, and the column ids are those of the left scan.
\<close>

theorem left_index_join:
  assumes ch: "children op = [l, r]"
    and hl: "has_expressions (lowered l)" and hr: "has_expressions (lowered r)"
    and el: "spec_eligible ctx op (lowered l) (left (hd (conditions op)))"
    and test: "force_index_join ctx \<or>
               less_than_percent (EstimateCardinality r) (EstimateCardinality l)"
  shows "\<exists>tbl_scan b index c.
           lowered l = Scan tbl_scan \<and> dynamic_cast (bind_data tbl_scan) = Some b \<and>
           conditions op = [c] \<and>
           find (\<lambda>i. alias (hd (unbound_expressions i)) = alias (left c))
                (indexes (info (storage (table b)))) = Some index \<and>
           CreatePlan ndebug ctx op =
             Inr (PhysicalIndexJoin (types op) (lowered r) (lowered l)
                    [c\<lparr>left := right c, right := left c\<rparr>] INNER
                    (right_projection_map op) (left_projection_map op)
                    (column_ids tbl_scan) index False)"
proof -
  from el obtain c where c: "conditions op = [c]" and eq: "comparison c = COMPARE_EQUAL"
    and inner: "join_type op = INNER"
    and us: "spec_usable_side ctx (lowered l) (alias (left c))"
    by (cases "conditions op") (auto simp: spec_eligible_def spec_single_inner_equality_def)
  from index_of_side_usable [OF hl us]
  obtain s b i where s: "lowered l = Scan s" and b: "dynamic_cast (bind_data s) = Some b"
    and i: "find (\<lambda>i. alias (hd (unbound_expressions i)) = alias (left c))
                 (indexes (info (storage (table b)))) = Some i"
    and L: "index_of_side (transaction ctx) (lowered l) (alias (left c)) = Inr (Some i)"
    by blast
  have "\<exists>ri. index_of_side (transaction ctx) (lowered r) (alias (right c)) = Inr ri"
    using index_of_side_usable [OF hr, of ctx "alias (right c)"]
          index_of_side_unusable [OF hr, of ctx "alias (right c)"]
    by (cases "spec_usable_side ctx (lowered r) (alias (right c))") auto
  then obtain ri where R: "index_of_side (transaction ctx) (lowered r) (alias (right c)) = Inr ri"
    by blast
  have T: "TransformIndexJoin ctx op (lowered l) (lowered r) = Inr (Some i, ri)"
    using c inner L R by (simp add: TransformIndexJoin_def GetTransaction_def)
  have wf: "ndebug \<or> null_equal_only_on_equality (conditions op)"
    using c eq by (simp add: null_equal_only_on_equality_def)
  have ex: "\<exists>c \<in> set (conditions op). comparison c = COMPARE_EQUAL"
    using c eq by simp
  have "CreatePlan ndebug ctx op =
             Inr (PhysicalIndexJoin (types op) (lowered r) (lowered l)
                    [c\<lparr>left := right c, right := left c\<rparr>] INNER
                    (right_projection_map op) (left_projection_map op)
                    (column_ids s) i False)"
    unfolding CreatePlan_with_equality [OF ch wf ex T]
    using test s c inner by (simp add: swap_first_def swap_operands_def)
  with s b c i show ?thesis by blast
qed

theorem left_index_join_witness:
  "children small_B_join = [child_A 1000000, child_B 100] \<and>
   has_expressions (lowered (child_A 1000000)) \<and>
   has_expressions (lowered (child_B 100)) \<and>
   spec_eligible plain_context small_B_join (lowered (child_A 1000000))
     (left (hd (conditions small_B_join))) \<and>
   spec_less_than_percent (EstimateCardinality (child_B 100))
     (EstimateCardinality (child_A 1000000)) \<and>
   less_than_percent (EstimateCardinality (child_B 100)) (EstimateCardinality (child_A 1000000)) \<and>
   CreatePlan False plain_context small_B_join =
     Inr (PhysicalIndexJoin [4, 4, 4] (Scan scan_B) (Scan scan_A)
            [\<lparr>left = expr_y, right = expr_x, comparison = COMPARE_EQUAL,
              null_values_are_equal = False\<rparr>]
            INNER [1] [0] [0, 1] index_A_x False)"
proof -
  have h1: "children small_B_join = [child_A 1000000, child_B 100]"
    by (simp add: small_B_join_def join_A_B_def)
  have h2: "has_expressions (lowered (child_A 1000000))"
    by (simp add: has_expressions_def example_defs)
  have h3: "has_expressions (lowered (child_B 100))"
    by (simp add: has_expressions_def example_defs)
  have e: "spec_eligible plain_context small_B_join (lowered (child_A 1000000))
             (left (hd (conditions small_B_join)))"
    by (simp add: spec_eligible_def spec_single_inner_equality_def spec_usable_side_def Find_def
          example_defs small_B_join_def x_equals_y_def)
  have s: "spec_less_than_percent (EstimateCardinality (child_B 100))
             (EstimateCardinality (child_A 1000000))"
    by (simp add: spec_less_than_percent_def child_A_def child_B_def)
  have "unat (EstimateCardinality (child_B 100)) < 2 ^ 53"
    and "unat (EstimateCardinality (child_A 1000000)) < 2 ^ 53"
    by (simp_all add: child_A_def child_B_def)
  with s have p: "less_than_percent (EstimateCardinality (child_B 100))
             (EstimateCardinality (child_A 1000000))"
    by (simp add: less_than_percent_exact spec_less_than_percent_def)
  then have t: "force_index_join plain_context \<or>
           less_than_percent (EstimateCardinality (child_B 100))
             (EstimateCardinality (child_A 1000000))"
    by simp
  from left_index_join [OF h1 h2 h3 e t, of False]
  have "CreatePlan False plain_context small_B_join =
     Inr (PhysicalIndexJoin [4, 4, 4] (Scan scan_B) (Scan scan_A)
            [\<lparr>left = expr_y, right = expr_x, comparison = COMPARE_EQUAL,
              null_values_are_equal = False\<rparr>]
            INNER [1] [0] [0, 1] index_A_x False)"
    by (auto simp: example_defs small_B_join_def x_equals_y_def)
  with h1 h2 h3 e s p show ?thesis by blast
qed

subsection \<open>C4\<close>

text \<open>
  C4: when both sides are eligible and the left side passes the force-or-ratio test, the
  result probes the left index, whatever the test of the right side says; the right index is
  probed exactly when the left side fails its test and the right side passes its own.
\<close>

theorem left_side_precedence:
  assumes ch: "children op = [l, r]"
    and hl: "has_expressions (lowered l)" and hr: "has_expressions (lowered r)"
    and el: "spec_eligible ctx op (lowered l) (left (hd (conditions op)))"
    and er: "spec_eligible ctx op (lowered r) (right (hd (conditions op)))"
  shows "(force_index_join ctx \<or>
          less_than_percent (EstimateCardinality r) (EstimateCardinality l) \<longrightarrow>
            index_join_probing Left_Side (CreatePlan ndebug ctx op)) \<and>
         (index_join_probing Right_Side (CreatePlan ndebug ctx op) \<longleftrightarrow>
            \<not> (force_index_join ctx \<or>
               less_than_percent (EstimateCardinality r) (EstimateCardinality l)) \<and>
            (force_index_join ctx \<or>
             less_than_percent (EstimateCardinality l) (EstimateCardinality r)))"
proof -
  from el obtain c where c: "conditions op = [c]" and eq: "comparison c = COMPARE_EQUAL"
    and inner: "join_type op = INNER"
    and ul: "spec_usable_side ctx (lowered l) (alias (left c))"
    by (cases "conditions op") (auto simp: spec_eligible_def spec_single_inner_equality_def)
  from er c have ur: "spec_usable_side ctx (lowered r) (alias (right c))"
    by (simp add: spec_eligible_def)
  from CreatePlan_single_equality [OF ch hl hr c eq, of ctx ndebug]
  obtain li ri where
    li': "(li \<noteq> None) = (join_type op = INNER \<and> spec_usable_side ctx (lowered l) (alias (left c)))" and
    ri': "(ri \<noteq> None) = (join_type op = INNER \<and> spec_usable_side ctx (lowered r) (alias (right c)))" and
    plan: "CreatePlan ndebug ctx op =
        (if li \<noteq> None \<and>
            (force_index_join ctx \<or> less_than_percent (EstimateCardinality r) (EstimateCardinality l))
         then Inr (PhysicalIndexJoin (types op) (lowered r) (lowered l)
                     [swap_operands c] (join_type op)
                     (right_projection_map op) (left_projection_map op)
                     (case lowered l of Scan s \<Rightarrow> column_ids s) (the li) False)
         else if ri \<noteq> None \<and>
            (force_index_join ctx \<or> less_than_percent (EstimateCardinality l) (EstimateCardinality r))
         then Inr (PhysicalIndexJoin (types op) (lowered l) (lowered r)
                     [c] (join_type op)
                     (left_projection_map op) (right_projection_map op)
                     (case lowered r of Scan s \<Rightarrow> column_ids s) (the ri) True)
         else Inr (PhysicalHashJoin (types op) (lowered l) (lowered r)
                     [c] (join_type op)
                     (left_projection_map op) (right_projection_map op)))"
    by blast
  from li' ri' inner ul ur have li: "li \<noteq> None" and ri: "ri \<noteq> None" by simp_all
  show ?thesis
    unfolding plan using li ri by auto
qed

theorem left_side_precedence_witness:
  "children even_join = [child_A 1000, child_B 1000] \<and>
   has_expressions (lowered (child_A 1000)) \<and>
   has_expressions (lowered (child_B 1000)) \<and>
   spec_eligible forcing_context even_join (lowered (child_A 1000))
     (left (hd (conditions even_join))) \<and>
   spec_eligible forcing_context even_join (lowered (child_B 1000))
     (right (hd (conditions even_join))) \<and>
   force_index_join forcing_context \<and>
   index_join_probing Left_Side (CreatePlan False forcing_context even_join) \<and>
   \<not> index_join_probing Right_Side (CreatePlan False forcing_context even_join)"
proof -
  have h1: "children even_join = [child_A 1000, child_B 1000]"
    by (simp add: even_join_def join_A_B_def)
  have h2: "has_expressions (lowered (child_A 1000))"
    by (simp add: has_expressions_def example_defs)
  have h3: "has_expressions (lowered (child_B 1000))"
    by (simp add: has_expressions_def example_defs)
  have el: "spec_eligible forcing_context even_join (lowered (child_A 1000))
              (left (hd (conditions even_join)))"
    by (simp add: spec_eligible_def spec_single_inner_equality_def spec_usable_side_def Find_def
          example_defs forcing_context_def even_join_def x_equals_y_def)
  have er: "spec_eligible forcing_context even_join (lowered (child_B 1000))
              (right (hd (conditions even_join)))"
    by (simp add: spec_eligible_def spec_single_inner_equality_def spec_usable_side_def Find_def
          example_defs forcing_context_def even_join_def x_equals_y_def)
  have f: "force_index_join forcing_context"
    by (simp add: forcing_context_def)
  from left_side_precedence [OF h1 h2 h3 el er, of False] f
  have "index_join_probing Left_Side (CreatePlan False forcing_context even_join) \<and>
        \<not> index_join_probing Right_Side (CreatePlan False forcing_context even_join)"
    by blast
  with h1 h2 h3 el er f show ?thesis by blast
qed

subsection \<open>C5\<close>

text \<open>
  C5 as stated: a condition with \<^verbatim>\<open>null_values_are_equal\<close> and a comparison other than
  equality aborts the construction. The check is an \<^verbatim>\<open>assert\<close>; a build that defines
  \<^verbatim>\<open>NDEBUG\<close> has none, and lowers the single condition \<open>x < y\<close> with the flag to a merge
  join.
\<close>

theorem no_abort_without_assertions:
  "null_values_are_equal (x_compared_with_y COMPARE_LESSTHAN True) \<and>
   comparison (x_compared_with_y COMPARE_LESSTHAN True) \<noteq> COMPARE_EQUAL \<and>
   CreatePlan True plain_context (join_A_B 1000 1000 [x_compared_with_y COMPARE_LESSTHAN True]) =
     Inr (PhysicalPiecewiseMergeJoin [4, 4, 4] (Scan scan_A) (Scan scan_B)
            [x_compared_with_y COMPARE_LESSTHAN True] INNER)"
  by (simp add: code_defs example_defs)

text \<open>
  C5, amended: in a build with assertions (\<^verbatim>\<open>NDEBUG\<close> not defined), for every join node that
  has a condition with \<^verbatim>\<open>null_values_are_equal\<close> and a comparison other than equality,
  \<^verbatim>\<open>CreatePlan\<close> returns no operator: an assertion fails.
\<close>

theorem null_equal_non_equality_aborts:
  assumes "\<exists>c \<in> set (conditions op). null_values_are_equal c \<and> comparison c \<noteq> COMPARE_EQUAL"
  shows "CreatePlan False ctx op = Inl Assertion_Failed"
  using assms by (rule CreatePlan_assertion)

theorem null_equal_non_equality_aborts_witness:
  "(\<exists>c \<in> set (conditions (join_A_B 1000 1000 [x_compared_with_y COMPARE_LESSTHAN True])).
      null_values_are_equal c \<and> comparison c \<noteq> COMPARE_EQUAL) \<and>
   CreatePlan False plain_context (join_A_B 1000 1000 [x_compared_with_y COMPARE_LESSTHAN True]) =
     Inl Assertion_Failed"
proof -
  have h: "\<exists>c \<in> set (conditions (join_A_B 1000 1000 [x_compared_with_y COMPARE_LESSTHAN True])).
             null_values_are_equal c \<and> comparison c \<noteq> COMPARE_EQUAL"
    by (simp add: join_A_B_def x_compared_with_y_def)
  from h null_equal_non_equality_aborts [OF h, of plain_context] show ?thesis by blast
qed

subsection \<open>C6\<close>

text \<open>
  C6: a join node without conditions becomes a cross product of its two lowered children,
  whatever the join type, the cardinalities, the context and the indexes.
\<close>

theorem no_conditions_cross_product:
  assumes "children op = [l, r]" and "conditions op = []"
  shows "CreatePlan ndebug ctx op = Inr (PhysicalCrossProduct (types op) (lowered l) (lowered r))"
  using assms by (simp add: CreatePlan_def Let_def)

theorem no_conditions_cross_product_witness:
  "children (join_A_B 1000000 100 []) = [child_A 1000000, child_B 100] \<and>
   conditions (join_A_B 1000000 100 []) = [] \<and>
   CreatePlan False forcing_context (join_A_B 1000000 100 []) =
     Inr (PhysicalCrossProduct [4, 4, 4] (Scan scan_A) (Scan scan_B))"
proof -
  have h1: "children (join_A_B 1000000 100 []) = [child_A 1000000, child_B 100]"
    by (simp add: join_A_B_def)
  have h2: "conditions (join_A_B 1000000 100 []) = []"
    by (simp add: join_A_B_def)
  from no_conditions_cross_product [OF h1 h2, of False forcing_context]
  have "CreatePlan False forcing_context (join_A_B 1000000 100 []) =
          Inr (PhysicalCrossProduct [4, 4, 4] (Scan scan_A) (Scan scan_B))"
    by (simp add: join_A_B_def child_A_def child_B_def)
  with h1 h2 show ?thesis by blast
qed

subsection \<open>C7\<close>

text \<open>
  C7: for a join node with at least one equality condition (and, in a build with
  assertions, no null-aware condition that is not an equality), when neither test of
  \<^verbatim>\<open>CreatePlan\<close> on the indexes that \<^verbatim>\<open>TransformIndexJoin\<close> returns holds, the result is
  the hash join of the two children in their order, with the condition list and the two
  projection maps of the node, unchanged.
\<close>

theorem equality_without_index_hash_join:
  assumes "children op = [l, r]"
    and "ndebug \<or> null_equal_only_on_equality (conditions op)"
    and "\<exists>c \<in> set (conditions op). comparison c = COMPARE_EQUAL"
    and "TransformIndexJoin ctx op (lowered l) (lowered r) = Inr (left_index, right_index)"
    and "\<not> (left_index \<noteq> None \<and>
            (force_index_join ctx \<or> less_than_percent (EstimateCardinality r) (EstimateCardinality l)))"
    and "\<not> (right_index \<noteq> None \<and>
            (force_index_join ctx \<or> less_than_percent (EstimateCardinality l) (EstimateCardinality r)))"
  shows "CreatePlan ndebug ctx op =
           Inr (PhysicalHashJoin (types op) (lowered l) (lowered r) (conditions op) (join_type op)
                  (left_projection_map op) (right_projection_map op))"
  using CreatePlan_with_equality [OF assms(1-4)] assms(5,6) by (simp only: if_False)

theorem equality_without_index_hash_join_witness:
  "children small_B_join = [child_A 1000000, child_B 100] \<and>
   null_equal_only_on_equality (conditions small_B_join) \<and>
   (\<exists>c \<in> set (conditions small_B_join). comparison c = COMPARE_EQUAL) \<and>
   TransformIndexJoin local_insert_context small_B_join
     (lowered (child_A 1000000)) (lowered (child_B 100)) = Inr (None, Some index_B_y) \<and>
   \<not> force_index_join local_insert_context \<and>
   \<not> less_than_percent (EstimateCardinality (child_A 1000000)) (EstimateCardinality (child_B 100)) \<and>
   CreatePlan False local_insert_context small_B_join =
     Inr (PhysicalHashJoin [4, 4, 4] (Scan scan_A) (Scan scan_B) [x_equals_y] INNER [0] [1])"
proof -
  have h1: "children small_B_join = [child_A 1000000, child_B 100]"
    by (simp add: small_B_join_def join_A_B_def)
  have w: "null_equal_only_on_equality (conditions small_B_join)"
    by (simp add: null_equal_only_on_equality_def example_defs small_B_join_def x_equals_y_def)
  then have h2: "False \<or> null_equal_only_on_equality (conditions small_B_join)"
    by simp
  have h3: "\<exists>c \<in> set (conditions small_B_join). comparison c = COMPARE_EQUAL"
    by (simp add: example_defs small_B_join_def x_equals_y_def)
  have h4: "TransformIndexJoin local_insert_context small_B_join
              (lowered (child_A 1000000)) (lowered (child_B 100)) = Inr (None, Some index_B_y)"
    by (simp add: code_defs example_defs local_insert_context_def small_B_join_def
          x_equals_y_def)
  have f: "\<not> force_index_join local_insert_context"
    by (simp add: local_insert_context_def)
  have t: "\<not> less_than_percent (EstimateCardinality (child_A 1000000))
               (EstimateCardinality (child_B 100))"
    by (simp add: child_A_def child_B_def double_defs)
  have h5: "\<not> (None \<noteq> None \<and>
              (force_index_join local_insert_context \<or>
               less_than_percent (EstimateCardinality (child_B 100))
                 (EstimateCardinality (child_A 1000000))))"
    by simp
  have h6: "\<not> (Some index_B_y \<noteq> None \<and>
              (force_index_join local_insert_context \<or>
               less_than_percent (EstimateCardinality (child_A 1000000))
                 (EstimateCardinality (child_B 100))))"
    using t f by simp
  from equality_without_index_hash_join [OF h1 h2 h3 h4 h5 h6]
  have "CreatePlan False local_insert_context small_B_join =
     Inr (PhysicalHashJoin [4, 4, 4] (Scan scan_A) (Scan scan_B) [x_equals_y] INNER [0] [1])"
    by (simp add: small_B_join_def join_A_B_def child_A_def child_B_def)
  with h1 w h3 h4 f t show ?thesis by blast
qed

subsection \<open>C8\<close>

text \<open>
  C8 as stated: a single condition whose comparison is not an equality becomes a merge
  join. The single condition \<open>x <> y\<close> is not an equality, and becomes a nested loop join.
\<close>

theorem single_not_equal_nested_loop:
  "conditions (join_A_B 1000 1000 [x_compared_with_y COMPARE_NOTEQUAL False]) =
     [x_compared_with_y COMPARE_NOTEQUAL False] \<and>
   comparison (x_compared_with_y COMPARE_NOTEQUAL False) \<noteq> COMPARE_EQUAL \<and>
   CreatePlan False plain_context (join_A_B 1000 1000 [x_compared_with_y COMPARE_NOTEQUAL False]) =
     Inr (PhysicalNestedLoopJoin [4, 4, 4] (Scan scan_A) (Scan scan_B)
            [x_compared_with_y COMPARE_NOTEQUAL False] INNER)"
  by (simp add: code_defs example_defs)

text \<open>
  C8, amended: a join node with exactly one condition, whose comparison is neither
  \<^verbatim>\<open>COMPARE_EQUAL\<close> nor \<^verbatim>\<open>COMPARE_NOTEQUAL\<close> (and which, in a build with assertions, is not
  null-aware), becomes a merge join of the two children with that condition; with
  \<^verbatim>\<open>COMPARE_NOTEQUAL\<close> it becomes a nested loop join.
\<close>

theorem single_range_condition_merge_join:
  assumes "children op = [l, r]" and "conditions op = [c]"
    and "ndebug \<or> \<not> null_values_are_equal c"
    and "comparison c \<noteq> COMPARE_EQUAL"
  shows "CreatePlan ndebug ctx op =
           (if comparison c = COMPARE_NOTEQUAL
            then Inr (PhysicalNestedLoopJoin (types op) (lowered l) (lowered r) [c] (join_type op))
            else Inr (PhysicalPiecewiseMergeJoin (types op) (lowered l) (lowered r) [c] (join_type op)))"
proof -
  have wf: "ndebug \<or> null_equal_only_on_equality (conditions op)"
    using assms(2,3) by (auto simp: null_equal_only_on_equality_def)
  show ?thesis
    using CreatePlan_without_equality [OF assms(1) wf, of ctx] assms(2,4) by simp
qed

theorem single_range_condition_merge_join_witness:
  "children (join_A_B 1000 1000 [x_compared_with_y COMPARE_LESSTHAN False]) =
     [child_A 1000, child_B 1000] \<and>
   conditions (join_A_B 1000 1000 [x_compared_with_y COMPARE_LESSTHAN False]) =
     [x_compared_with_y COMPARE_LESSTHAN False] \<and>
   \<not> null_values_are_equal (x_compared_with_y COMPARE_LESSTHAN False) \<and>
   comparison (x_compared_with_y COMPARE_LESSTHAN False) \<noteq> COMPARE_EQUAL \<and>
   CreatePlan False plain_context (join_A_B 1000 1000 [x_compared_with_y COMPARE_LESSTHAN False]) =
     Inr (PhysicalPiecewiseMergeJoin [4, 4, 4] (Scan scan_A) (Scan scan_B)
            [x_compared_with_y COMPARE_LESSTHAN False] INNER)"
proof -
  have h1: "children (join_A_B 1000 1000 [x_compared_with_y COMPARE_LESSTHAN False]) =
              [child_A 1000, child_B 1000]"
    by (simp add: join_A_B_def)
  have h2: "conditions (join_A_B 1000 1000 [x_compared_with_y COMPARE_LESSTHAN False]) =
              [x_compared_with_y COMPARE_LESSTHAN False]"
    by (simp add: join_A_B_def)
  have n: "\<not> null_values_are_equal (x_compared_with_y COMPARE_LESSTHAN False)"
    by (simp add: x_compared_with_y_def)
  then have h3: "False \<or> \<not> null_values_are_equal (x_compared_with_y COMPARE_LESSTHAN False)"
    by simp
  have h4: "comparison (x_compared_with_y COMPARE_LESSTHAN False) \<noteq> COMPARE_EQUAL"
    by (simp add: x_compared_with_y_def)
  from single_range_condition_merge_join [OF h1 h2 h3 h4, of plain_context]
  have "CreatePlan False plain_context
          (join_A_B 1000 1000 [x_compared_with_y COMPARE_LESSTHAN False]) =
     Inr (PhysicalPiecewiseMergeJoin [4, 4, 4] (Scan scan_A) (Scan scan_B)
            [x_compared_with_y COMPARE_LESSTHAN False] INNER)"
    by (simp add: join_A_B_def child_A_def child_B_def x_compared_with_y_def)
  with h1 h2 n h4 show ?thesis by blast
qed

subsection \<open>C9\<close>

text \<open>
  C9: for every operator that \<^verbatim>\<open>CreatePlan\<close> returns, its condition list, with the operand
  swap of the index join over the left table undone, is the condition list of the logical
  node: as many conditions, the same conditions, in the same order.
\<close>

theorem conditions_round_trip:
  assumes "CreatePlan ndebug ctx op = Inr plan"
  shows "restore_conditions plan = conditions op \<and>
         length (conditions_of plan) = length (conditions op)"
  using assms
  by (auto simp: CreatePlan_def Let_def restore_conditions_def swap_first_swap_first
           length_swap_first
           split: if_splits sum.splits prod.splits PhysicalOperator.splits)

theorem conditions_round_trip_witness:
  "CreatePlan False plain_context small_B_join =
     Inr (PhysicalIndexJoin [4, 4, 4] (Scan scan_B) (Scan scan_A)
            [\<lparr>left = expr_y, right = expr_x, comparison = COMPARE_EQUAL,
              null_values_are_equal = False\<rparr>]
            INNER [1] [0] [0, 1] index_A_x False) \<and>
   restore_conditions
     (PhysicalIndexJoin [4, 4, 4] (Scan scan_B) (Scan scan_A)
        [\<lparr>left = expr_y, right = expr_x, comparison = COMPARE_EQUAL,
          null_values_are_equal = False\<rparr>]
        INNER [1] [0] [0, 1] index_A_x False) = conditions small_B_join \<and>
   conditions small_B_join = [x_equals_y]"
proof -
  have h: "CreatePlan False plain_context small_B_join =
     Inr (PhysicalIndexJoin [4, 4, 4] (Scan scan_B) (Scan scan_A)
            [\<lparr>left = expr_y, right = expr_x, comparison = COMPARE_EQUAL,
              null_values_are_equal = False\<rparr>]
            INNER [1] [0] [0, 1] index_A_x False)"
    by (simp add: code_defs example_defs small_B_join_def x_equals_y_def double_defs)
  have c: "conditions small_B_join = [x_equals_y]"
    by (simp add: small_B_join_def join_A_B_def)
  from h c conditions_round_trip [OF h] show ?thesis by blast
qed

subsection \<open>C10\<close>

text \<open>
  C10: on each side whose scan can use an index, \<^verbatim>\<open>TransformIndexJoin\<close> returns the first
  index, in the order of the table's index list, whose first expression has the alias of
  the side's operand of the condition: the search reads nothing of an index but that alias,
  neither a further expression of the index nor anything else of the first one
  (\<open>find_index_equivariant\<close>).
\<close>

theorem index_search_by_first_alias:
  assumes "join_type op = INNER" and "conditions op = [c]"
    and "has_expressions l" and "has_expressions r"
  shows "\<exists>left_index right_index.
           TransformIndexJoin ctx op l r = Inr (left_index, right_index) \<and>
           (\<forall>s b. l = Scan s \<and> dynamic_cast (bind_data s) = Some b \<and>
                  can_plan_index_join (GetTransaction ctx) (Some b) s \<longrightarrow>
                  left_index = find (\<lambda>i. alias (hd (unbound_expressions i)) = alias (left c))
                                 (indexes (info (storage (table b))))) \<and>
           (\<forall>s b. r = Scan s \<and> dynamic_cast (bind_data s) = Some b \<and>
                  can_plan_index_join (GetTransaction ctx) (Some b) s \<longrightarrow>
                  right_index = find (\<lambda>i. alias (hd (unbound_expressions i)) = alias (right c))
                                  (indexes (info (storage (table b)))))"
proof -
  from index_of_side_find [OF assms(3), of "GetTransaction ctx" "alias (left c)"]
  obtain li where L: "index_of_side (GetTransaction ctx) l (alias (left c)) = Inr li"
    and Lf: "\<forall>s b. l = Scan s \<and> dynamic_cast (bind_data s) = Some b \<and>
                  can_plan_index_join (GetTransaction ctx) (Some b) s \<longrightarrow>
                  li = find (\<lambda>i. alias (hd (unbound_expressions i)) = alias (left c))
                         (indexes (info (storage (table b))))"
    by blast
  from index_of_side_find [OF assms(4), of "GetTransaction ctx" "alias (right c)"]
  obtain ri where R: "index_of_side (GetTransaction ctx) r (alias (right c)) = Inr ri"
    and Rf: "\<forall>s b. r = Scan s \<and> dynamic_cast (bind_data s) = Some b \<and>
                  can_plan_index_join (GetTransaction ctx) (Some b) s \<longrightarrow>
                  ri = find (\<lambda>i. alias (hd (unbound_expressions i)) = alias (right c))
                         (indexes (info (storage (table b))))"
    by blast
  have "TransformIndexJoin ctx op l r = Inr (li, ri)"
    using assms(1,2) L R by (simp add: TransformIndexJoin_def)
  with Lf Rf show ?thesis by blast
qed

theorem index_search_by_first_alias_witness:
  "join_type (join_C_B [x_equals_y]) = INNER \<and>
   conditions (join_C_B [x_equals_y]) = [x_equals_y] \<and>
   has_expressions (Scan scan_C) \<and> has_expressions (Scan scan_B) \<and>
   indexes (info (storage (table table_C))) = [index_C_z, index_C_x_z, index_C_x] \<and>
   unbound_expressions index_C_x_z = [expr_x_elsewhere, expr_z] \<and>
   left x_equals_y = expr_x \<and> expr_x \<noteq> expr_x_elsewhere \<and>
   TransformIndexJoin plain_context (join_C_B [x_equals_y]) (Scan scan_C) (Scan scan_B) =
     Inr (Some index_C_x_z, Some index_B_y)"
proof -
  have h1: "join_type (join_C_B [x_equals_y]) = INNER"
    by (simp add: join_C_B_def)
  have h2: "conditions (join_C_B [x_equals_y]) = [x_equals_y]"
    by (simp add: join_C_B_def)
  have h3: "has_expressions (Scan scan_C)"
    by (simp add: has_expressions_def scan_C_def table_C_def index_C_z_def index_C_x_z_def
          index_C_x_def)
  have h4: "has_expressions (Scan scan_B)"
    by (simp add: has_expressions_def example_defs)
  have l: "indexes (info (storage (table table_C))) = [index_C_z, index_C_x_z, index_C_x]"
    by (simp add: table_C_def)
  have m: "unbound_expressions index_C_x_z = [expr_x_elsewhere, expr_z]"
    by (simp add: index_C_x_z_def)
  have x: "left x_equals_y = expr_x" "expr_x \<noteq> expr_x_elsewhere"
    by (simp_all add: x_equals_y_def x_compared_with_y_def expr_x_def expr_x_elsewhere_def)
  have cC: "dynamic_cast (bind_data scan_C) = Some table_C \<and>
            can_plan_index_join (GetTransaction plain_context) (Some table_C) scan_C"
    by (simp add: can_plan_index_join_def GetTransaction_def Find_def scan_C_def table_C_def
          plain_context_def)
  have cB: "dynamic_cast (bind_data scan_B) = Some table_B \<and>
            can_plan_index_join (GetTransaction plain_context) (Some table_B) scan_B"
    by (simp add: can_plan_index_join_def GetTransaction_def Find_def example_defs)
  from index_search_by_first_alias [OF h1 h2 h3 h4, of plain_context]
  obtain li ri where
    T: "TransformIndexJoin plain_context (join_C_B [x_equals_y]) (Scan scan_C) (Scan scan_B) =
          Inr (li, ri)"
    and L: "\<forall>s b. Scan scan_C = Scan s \<and> dynamic_cast (bind_data s) = Some b \<and>
                  can_plan_index_join (GetTransaction plain_context) (Some b) s \<longrightarrow>
                  li = find (\<lambda>i. alias (hd (unbound_expressions i)) = alias (left x_equals_y))
                         (indexes (info (storage (table b))))"
    and R: "\<forall>s b. Scan scan_B = Scan s \<and> dynamic_cast (bind_data s) = Some b \<and>
                  can_plan_index_join (GetTransaction plain_context) (Some b) s \<longrightarrow>
                  ri = find (\<lambda>i. alias (hd (unbound_expressions i)) = alias (right x_equals_y))
                         (indexes (info (storage (table b))))"
    by blast
  from L cC have "li = find (\<lambda>i. alias (hd (unbound_expressions i)) = alias (left x_equals_y))
                         (indexes (info (storage (table table_C))))"
    by blast
  then have li: "li = Some index_C_x_z"
    by (simp add: table_C_def index_C_z_def index_C_x_z_def index_C_x_def expr_z_def
          expr_x_elsewhere_def x_equals_y_def x_compared_with_y_def expr_x_def)
  from R cB have "ri = find (\<lambda>i. alias (hd (unbound_expressions i)) = alias (right x_equals_y))
                         (indexes (info (storage (table table_B))))"
    by blast
  then have ri: "ri = Some index_B_y"
    by (simp add: example_defs x_equals_y_def)
  from T li ri
  have "TransformIndexJoin plain_context (join_C_B [x_equals_y]) (Scan scan_C) (Scan scan_B) =
          Inr (Some index_C_x_z, Some index_B_y)"
    by simp
  with h1 h2 h3 h4 l m x show ?thesis by blast
qed

end
